theory Spec2Isabelle
  imports Complex_Main
begin

section \<open>Candidate-job match scoring: the data model\<close>

text \<open>
  The two scoring implementations of the repository are embedded side by side:
  \<^item> \<open>JobCandidateMatch\<close> of \<^verbatim>\<open>models/match.py\<close> (\<open>calculate_score\<close>,
    \<open>_cosine_similarity\<close>, \<open>_calculate_skill_match_score\<close>);
  \<^item> \<open>CandidateJobMatch\<close> of \<^verbatim>\<open>models/matching.py\<close> (\<open>calculate_match_score\<close>,
    \<open>_calculate_skills_match\<close>, \<open>_calculate_embedding_match\<close>).

  Python floats are read as real numbers: the arithmetic is exact and rounding is
  left out. Strings are byte strings; \<open>str.lower\<close> is modelled on the ASCII letters.
  A value that Python allows to be \<open>None\<close> is an \<open>option\<close>.
\<close>

datatype error = ValueError

type_synonym vector = "real list"

datatype json = JNumber real | JString string

type_synonym jsonb = "string \<rightharpoonup> json"

record job =
  j_skills_array :: "string list option"
  j_embedding :: "vector option"

record candidate =
  c_skills_array :: "string list option"
  c_embedding :: "vector option"

text \<open>The columns of \<open>MatchHistory\<close> (table \<open>match_history\<close>).\<close>

record match_history =
  mh_match_id :: nat
  mh_old_score :: "real option"
  mh_new_score :: "real option"
  mh_old_status :: "string option"
  mh_new_status :: "string option"
  mh_note :: "string option"
  mh_user_id :: "nat option"
  mh_timestamp :: string

text \<open>
  What the methods reach through \<open>Job.query\<close>, \<open>Candidate.query\<close> and the session:
  the jobs and candidates by primary key, and the rows of \<open>match_history\<close>.
\<close>

record db =
  jobs :: "nat \<rightharpoonup> job"
  candidates :: "nat \<rightharpoonup> candidate"
  match_history_rows :: "match_history list"

text \<open>The columns of \<open>JobCandidateMatch\<close> that the methods read or write.\<close>

record job_candidate_match =
  jcm_job_id :: nat
  jcm_candidate_id :: nat
  score :: real
  match_data :: "jsonb option"
  status :: string

text \<open>The columns of \<open>CandidateJobMatch\<close> that the methods read or write.\<close>

record candidate_job_match =
  cjm_candidate_id :: nat
  cjm_job_id :: nat
  match_score :: real
  skills_match_score :: real
  embedding_match_score :: real
  cjm_match_data :: "jsonb option"

section \<open>Python and numpy primitives\<close>

text \<open>Truth value of an optional list: \<open>None\<close> and \<open>[]\<close> are false.\<close>

definition truthy :: "'a list option \<Rightarrow> bool" where
  "truthy v = (case v of None \<Rightarrow> False | Some xs \<Rightarrow> xs \<noteq> [])"

text \<open>\<^verbatim>\<open>v or []\<close>\<close>

definition or_empty :: "'a list option \<Rightarrow> 'a list" where
  "or_empty v = (case v of None \<Rightarrow> [] | Some xs \<Rightarrow> xs)"

text \<open>\<^verbatim>\<open>d or {}\<close>\<close>

definition or_empty_dict :: "jsonb option \<Rightarrow> jsonb" where
  "or_empty_dict v = (case v of None \<Rightarrow> Map.empty | Some m \<Rightarrow> m)"

definition lower_char :: "char \<Rightarrow> char" where
  "lower_char c =
     (let n = (of_char c :: nat) in if 65 \<le> n \<and> n \<le> 90 then char_of (n + 32) else c)"

definition lower :: "string \<Rightarrow> string" where
  "lower s = map lower_char s"

text \<open>
  \<open>np.dot\<close> on two one-dimensional arrays raises \<open>ValueError\<close> (shapes not aligned)
  when the lengths differ; \<open>np.linalg.norm\<close> is the Euclidean norm. Both are taken
  over the reals: the rounding of a float result, its overflow to infinity, a result that
  is not a number, and the wrap-around of 64-bit integers for a list of Python ints are
  not modelled. The theorems below state how the results depend on one another, and
  evaluate a similarity only at vectors on which the float arithmetic is exact.
\<close>

definition np_dot :: "vector \<Rightarrow> vector \<Rightarrow> error + real" where
  "np_dot a b =
     (if length a = length b then Inr (sum_list (map (\<lambda>(x, y). x * y) (zip a b)))
      else Inl ValueError)"

definition np_norm :: "vector \<Rightarrow> real" where
  "np_norm a = sqrt (sum_list (map (\<lambda>x. x * x) a))"

section \<open>\<open>JobCandidateMatch\<close> (models/match.py)\<close>

definition cosine_similarity :: "vector option \<Rightarrow> vector option \<Rightarrow> error + real" where
  "cosine_similarity vector_a vector_b =
     (if \<not> truthy vector_a \<or> \<not> truthy vector_b then Inr 0
      else
        (case np_dot (or_empty vector_a) (or_empty vector_b) of
           Inl e \<Rightarrow> Inl e
         | Inr dot_product \<Rightarrow>
             (let norm_a = np_norm (or_empty vector_a);
                  norm_b = np_norm (or_empty vector_b)
              in if norm_a = 0 \<or> norm_b = 0 then Inr 0
                 else (let similarity = dot_product / (norm_a * norm_b)
                       in Inr (max 0 (min 1 similarity))))))"

definition calculate_skill_match_score :: "db \<Rightarrow> job_candidate_match \<Rightarrow> real" where
  "calculate_skill_match_score d self =
     (case jobs d (jcm_job_id self) of
        None \<Rightarrow> 0
      | Some job \<Rightarrow>
          (case candidates d (jcm_candidate_id self) of
             None \<Rightarrow> 0
           | Some candidate \<Rightarrow>
               (let job_skills = set (map lower (or_empty (j_skills_array job)));
                    candidate_skills = set (map lower (or_empty (c_skills_array candidate)))
                in if job_skills = {} \<or> candidate_skills = {} then 0
                   else (let intersection = card (job_skills \<inter> candidate_skills);
                             union = card (job_skills \<union> candidate_skills)
                         in if union = 0 then 0 else real intersection / real union))))"

text \<open>Lines 69-71 and 73-75 of \<open>calculate_score\<close>: an embedding that is not passed in
  is read from the entity, and is \<open>None\<close> when the entity does not exist.\<close>

definition get_job_embedding :: "db \<Rightarrow> job_candidate_match \<Rightarrow> vector option \<Rightarrow> vector option" where
  "get_job_embedding d self job_embedding =
     (if \<not> truthy job_embedding
      then (case jobs d (jcm_job_id self) of Some job \<Rightarrow> j_embedding job | None \<Rightarrow> None)
      else job_embedding)"

definition get_candidate_embedding ::
  "db \<Rightarrow> job_candidate_match \<Rightarrow> vector option \<Rightarrow> vector option" where
  "get_candidate_embedding d self candidate_embedding =
     (if \<not> truthy candidate_embedding
      then (case candidates d (jcm_candidate_id self) of
              Some candidate \<Rightarrow> c_embedding candidate | None \<Rightarrow> None)
      else candidate_embedding)"

text \<open>
  \<open>calculate_score\<close>; \<open>now\<close> is \<^verbatim>\<open>datetime.utcnow().isoformat()\<close>. The result is the
  returned score, the record after the call and the database after the call.
\<close>

definition calculate_score ::
  "string \<Rightarrow> db \<Rightarrow> job_candidate_match \<Rightarrow> vector option \<Rightarrow> vector option
     \<Rightarrow> error + (real \<times> job_candidate_match \<times> db)" where
  "calculate_score now d self job_embedding0 candidate_embedding0 =
     (let job_embedding = get_job_embedding d self job_embedding0;
          candidate_embedding = get_candidate_embedding d self candidate_embedding0
      in if \<not> truthy job_embedding \<or> \<not> truthy candidate_embedding
         then Inr (calculate_skill_match_score d self, self, d)
         else
           (case cosine_similarity job_embedding candidate_embedding of
              Inl e \<Rightarrow> Inl e
            | Inr embedding_similarity \<Rightarrow>
                (let embedding_score = embedding_similarity * 0.6;
                     skill_score = calculate_skill_match_score d self * 0.4;
                     total_score = embedding_score + skill_score;
                     self1 = self\<lparr>score := total_score\<rparr>;
                     data = or_empty_dict (match_data self1);
                     self2 = self1\<lparr>match_data := Some data\<rparr>;
                     self3 = self2\<lparr>match_data := Some (data ++
                       [''embedding_similarity'' \<mapsto> JNumber embedding_similarity,
                        ''skill_match_score'' \<mapsto> JNumber skill_score,
                        ''total_score'' \<mapsto> JNumber total_score,
                        ''last_calculated_at'' \<mapsto> JString now])\<rparr>
                 in Inr (total_score, self3, d))))"

section \<open>\<open>CandidateJobMatch\<close> (models/matching.py)\<close>

definition calculate_skills_match :: "candidate \<Rightarrow> job \<Rightarrow> real" where
  "calculate_skills_match candidate job =
     (let candidate_skills =
            (if truthy (c_skills_array candidate)
             then set (map lower (or_empty (c_skills_array candidate))) else {});
          job_skills =
            (if truthy (j_skills_array job)
             then set (map lower (or_empty (j_skills_array job))) else {})
      in if candidate_skills = {} \<or> job_skills = {} then 0
         else (let intersection = card (candidate_skills \<inter> job_skills);
                   union = card (candidate_skills \<union> job_skills)
               in if union > 0 then real intersection / real union else 0))"

text \<open>\<open>_calculate_embedding_match\<close>; its only caller passes lists that are not empty.\<close>

definition calculate_embedding_match :: "vector \<Rightarrow> vector \<Rightarrow> error + real" where
  "calculate_embedding_match candidate_embedding job_embedding =
     (case np_dot candidate_embedding job_embedding of
        Inl e \<Rightarrow> Inl e
      | Inr dot_product \<Rightarrow>
          (let norm_candidate = np_norm candidate_embedding;
               norm_job = np_norm job_embedding
           in if norm_candidate = 0 \<or> norm_job = 0 then Inr 0
              else (let similarity = dot_product / (norm_candidate * norm_job)
                    in Inr (max 0 (min 1 similarity)))))"

text \<open>Lines 66-69 of \<open>calculate_match_score\<close>: an object that is not passed in is
  looked up by the record's foreign key.\<close>

definition get_candidate :: "db \<Rightarrow> candidate_job_match \<Rightarrow> candidate option \<Rightarrow> candidate option" where
  "get_candidate d self candidate =
     (case candidate of None \<Rightarrow> candidates d (cjm_candidate_id self) | Some c \<Rightarrow> Some c)"

definition get_job :: "db \<Rightarrow> candidate_job_match \<Rightarrow> job option \<Rightarrow> job option" where
  "get_job d self job =
     (case job of None \<Rightarrow> jobs d (cjm_job_id self) | Some j \<Rightarrow> Some j)"

definition calculate_match_score ::
  "string \<Rightarrow> db \<Rightarrow> candidate_job_match \<Rightarrow> candidate option \<Rightarrow> job option
     \<Rightarrow> error + (real \<times> candidate_job_match \<times> db)" where
  "calculate_match_score now d self candidate0 job0 =
     (case get_candidate d self candidate0 of
        None \<Rightarrow> Inr (0, self, d)
      | Some candidate \<Rightarrow>
          (case get_job d self job0 of
             None \<Rightarrow> Inr (0, self, d)
           | Some job \<Rightarrow>
               (let self1 = self\<lparr>skills_match_score := calculate_skills_match candidate job\<rparr>
                in if truthy (c_embedding candidate) \<and> truthy (j_embedding job)
                   then
                     (case calculate_embedding_match (or_empty (c_embedding candidate))
                             (or_empty (j_embedding job)) of
                        Inl e \<Rightarrow> Inl e
                      | Inr s \<Rightarrow>
                          (let self2 = self1\<lparr>embedding_match_score := s\<rparr>;
                               skills_score = skills_match_score self2;
                               embedding_score = embedding_match_score self2;
                               self3 = self2\<lparr>match_score :=
                                 (skills_score * 0.4) + (embedding_score * 0.6)\<rparr>;
                               self4 = self3\<lparr>cjm_match_data := Some
                                 [''skills_match_score'' \<mapsto> JNumber skills_score,
                                  ''embedding_match_score'' \<mapsto> JNumber embedding_score,
                                  ''total_score'' \<mapsto> JNumber (match_score self3),
                                  ''calculation_timestamp'' \<mapsto> JString now]\<rparr>
                           in Inr (match_score self4, self4, d)))
                   else
                     (let self2 = self1\<lparr>embedding_match_score := 0\<rparr>;
                          self3 = self2\<lparr>match_score := skills_match_score self2\<rparr>
                      in Inr (match_score self3, self3, d)))))"

section \<open>The specification's skill overlap\<close>

text \<open>
  Jaccard similarity of two sets, 0 when either is empty, and the skill overlap as the
  specification words it: every name is case-folded and trimmed before the sets are
  compared. \<open>trim\<close> removes the ASCII whitespace at both ends, as \<open>str.strip\<close> does.
\<close>

definition jaccard :: "'a set \<Rightarrow> 'a set \<Rightarrow> real" where
  "jaccard A B =
     (if A = {} \<or> B = {} then 0 else real (card (A \<inter> B)) / real (card (A \<union> B)))"

definition is_space :: "char \<Rightarrow> bool" where
  "is_space c =
     (let n = (of_char c :: nat)
      in n = 32 \<or> (9 \<le> n \<and> n \<le> 13) \<or> (28 \<le> n \<and> n \<le> 31))"

definition trim :: "string \<Rightarrow> string" where
  "trim s = rev (dropWhile is_space (rev (dropWhile is_space s)))"

definition spec_skill_overlap :: "string list \<Rightarrow> string list \<Rightarrow> real" where
  "spec_skill_overlap A B =
     jaccard (set (map (\<lambda>s. trim (lower s)) A)) (set (map (\<lambda>s. trim (lower s)) B))"

section \<open>Example data\<close>

text \<open>A job and a candidate with the same embedding and no skill in common.\<close>

definition disjoint_job :: job where
  "disjoint_job = \<lparr>j_skills_array = Some [''Go''], j_embedding = Some [1, 0]\<rparr>"

definition disjoint_candidate :: candidate where
  "disjoint_candidate = \<lparr>c_skills_array = Some [''Python''], c_embedding = Some [1, 0]\<rparr>"

definition disjoint_db :: db where
  "disjoint_db = \<lparr>jobs = [1 \<mapsto> disjoint_job], candidates = [1 \<mapsto> disjoint_candidate],
     match_history_rows = []\<rparr>"

text \<open>A job and a candidate without embeddings that share one skill of three.\<close>

definition python_go_job :: job where
  "python_go_job = \<lparr>j_skills_array = Some [''python'', ''go''], j_embedding = None\<rparr>"

definition python_sql_candidate :: candidate where
  "python_sql_candidate = \<lparr>c_skills_array = Some [''python'', ''sql''], c_embedding = None\<rparr>"

definition skills_db :: db where
  "skills_db = \<lparr>jobs = [1 \<mapsto> python_go_job], candidates = [1 \<mapsto> python_sql_candidate],
     match_history_rows = []\<rparr>"

text \<open>A database without any job or candidate.\<close>

definition empty_db :: db where
  "empty_db = \<lparr>jobs = Map.empty, candidates = Map.empty, match_history_rows = []\<rparr>"

text \<open>Freshly created match records for job 1 and candidate 1, with the column defaults.\<close>

definition new_job_candidate_match :: job_candidate_match where
  "new_job_candidate_match =
     \<lparr>jcm_job_id = 1, jcm_candidate_id = 1, score = 0, match_data = None, status = ''new''\<rparr>"

definition new_candidate_job_match :: candidate_job_match where
  "new_candidate_job_match =
     \<lparr>cjm_candidate_id = 1, cjm_job_id = 1, match_score = 0, skills_match_score = 0,
      embedding_match_score = 0, cjm_match_data = None\<rparr>"

text \<open>A candidate whose skill carries a leading blank, and a job asking for that skill.\<close>

definition padded_candidate :: candidate where
  "padded_candidate = \<lparr>c_skills_array = Some ['' python''], c_embedding = None\<rparr>"

definition python_job :: job where
  "python_job = \<lparr>j_skills_array = Some [''python''], j_embedding = None\<rparr>"

definition padded_db :: db where
  "padded_db = \<lparr>jobs = [1 \<mapsto> python_job], candidates = [1 \<mapsto> padded_candidate],
     match_history_rows = []\<rparr>"

text \<open>A candidate without skills.\<close>

definition unskilled_candidate :: candidate where
  "unskilled_candidate = \<lparr>c_skills_array = None, c_embedding = None\<rparr>"

definition unskilled_db :: db where
  "unskilled_db = \<lparr>jobs = [1 \<mapsto> python_job], candidates = [1 \<mapsto> unskilled_candidate],
     match_history_rows = []\<rparr>"

text \<open>A job and a candidate whose embeddings have different lengths.\<close>

definition wide_job :: job where
  "wide_job = \<lparr>j_skills_array = Some [''python''], j_embedding = Some [1, 0]\<rparr>"

definition narrow_candidate :: candidate where
  "narrow_candidate = \<lparr>c_skills_array = Some [''python''], c_embedding = Some [1]\<rparr>"

definition mismatched_db :: db where
  "mismatched_db = \<lparr>jobs = [1 \<mapsto> wide_job], candidates = [1 \<mapsto> narrow_candidate],
     match_history_rows = []\<rparr>"

section \<open>The match record manager and the status workflow of the specification\<close>

text \<open>
  The repository declares the match tables (\<open>CandidateJobMatch\<close> with a unique
  constraint on candidate and job, a \<open>status\<close> column with default \<open>new\<close>) and has no
  function that creates a match record or changes its status. The operations below
  follow sections 3, 4.4 and 4.5 of the specification.
\<close>

text \<open>Modelled from the spec: the four states of section 4.5 and the two errors of
  section 7 that a status change can end in; the repository stores the status as a
  string and declares no such error.\<close>

datatype match_status = New | Reviewed | Contacted | Rejected

datatype workflow_error = InvalidTransition | NotFound

text \<open>Modelled from the spec: the \<open>MatchRecord\<close> and the \<open>MatchHistoryEntry\<close> of
  section 3, and the store of both, which the missing record manager owns.\<close>

record match_record =
  mr_id :: nat
  mr_candidate_id :: nat
  mr_job_id :: nat
  mr_match_score :: real
  mr_status :: match_status
  mr_updated_at :: string

record match_history_entry =
  he_match_record_id :: nat
  he_previous_score :: "real option"
  he_new_score :: "real option"
  he_previous_status :: "match_status option"
  he_new_status :: "match_status option"
  he_note :: "string option"
  he_actor_id :: "string option"
  he_timestamp :: string

record store =
  records :: "match_record list"
  history :: "match_history_entry list"

text \<open>Modelled from the spec: the store before the first score computation, and the
  natural key of a record (section 3).\<close>

definition empty_store :: store where
  "empty_store = \<lparr>records = [], history = []\<rparr>"

definition pair_of :: "match_record \<Rightarrow> nat \<times> nat" where
  "pair_of r = (mr_candidate_id r, mr_job_id r)"

text \<open>Modelled from the spec: \<open>get(candidateId, jobId)\<close> of section 4.4, the record of the
  pair or not found.\<close>

definition get_record :: "store \<Rightarrow> nat \<Rightarrow> nat \<Rightarrow> match_record option" where
  "get_record s candidateId jobId = find (\<lambda>r. pair_of r = (candidateId, jobId)) (records s)"

text \<open>Modelled from the spec: the identifier of a new record, which the missing record
  manager chooses: one that no record of the store has.\<close>

definition fresh_id :: "store \<Rightarrow> nat" where
  "fresh_id s = Suc (foldr max (map mr_id (records s)) 0)"

text \<open>Modelled from the spec: the upsert of \<open>computeAndStore\<close> (section 4.4), which the
  repository does not have, given the match score that sections 4.1 to 4.3 compute. A
  record of the pair is updated in place, its status kept, and a history entry holds the
  old and the new score; without one, a record with status \<open>new\<close> is created.\<close>

definition compute_and_store :: "store \<Rightarrow> nat \<Rightarrow> nat \<Rightarrow> real \<Rightarrow> string \<Rightarrow> store" where
  "compute_and_store s candidateId jobId matchScore now =
     (case get_record s candidateId jobId of
        Some r \<Rightarrow>
          s\<lparr>records :=
              map (\<lambda>x. if pair_of x = (candidateId, jobId)
                        then x\<lparr>mr_match_score := matchScore, mr_updated_at := now\<rparr> else x)
                (records s),
            history := history s @
              [\<lparr>he_match_record_id = mr_id r, he_previous_score = Some (mr_match_score r),
                he_new_score = Some matchScore, he_previous_status = None,
                he_new_status = None, he_note = None, he_actor_id = None,
                he_timestamp = now\<rparr>]\<rparr>
      | None \<Rightarrow>
          s\<lparr>records := records s @
              [\<lparr>mr_id = fresh_id s, mr_candidate_id = candidateId, mr_job_id = jobId,
                mr_match_score = matchScore, mr_status = New, mr_updated_at = now\<rparr>],
            history := history s @
              [\<lparr>he_match_record_id = fresh_id s, he_previous_score = None,
                he_new_score = Some matchScore, he_previous_status = None,
                he_new_status = Some New, he_note = None, he_actor_id = None,
                he_timestamp = now\<rparr>]\<rparr>)"

text \<open>Modelled from the spec: the transition table of section 4.5.\<close>

fun allowed :: "match_status \<Rightarrow> match_status \<Rightarrow> bool" where
  "allowed New Reviewed = True"
| "allowed Reviewed Contacted = True"
| "allowed New Rejected = True"
| "allowed Reviewed Rejected = True"
| "allowed Contacted Rejected = True"
| "allowed _ _ = False"

text \<open>Modelled from the spec: \<open>transition(matchRecordId, newStatus, actorId, note?)\<close> of
  section 4.5, which the repository does not have. The same status again is a success
  that changes nothing; a step of the table updates the status and the time and writes
  one history entry; anything else is \<open>InvalidTransition\<close>.\<close>

definition transition ::
  "store \<Rightarrow> nat \<Rightarrow> match_status \<Rightarrow> string \<Rightarrow> string option \<Rightarrow> string
     \<Rightarrow> workflow_error + store" where
  "transition s matchRecordId newStatus actorId note now =
     (case find (\<lambda>r. mr_id r = matchRecordId) (records s) of
        None \<Rightarrow> Inl NotFound
      | Some r \<Rightarrow>
          if newStatus = mr_status r then Inr s
          else if allowed (mr_status r) newStatus
          then Inr (s\<lparr>records :=
                        map (\<lambda>x. if mr_id x = matchRecordId
                                  then x\<lparr>mr_status := newStatus, mr_updated_at := now\<rparr> else x)
                          (records s),
                      history := history s @
                        [\<lparr>he_match_record_id = matchRecordId, he_previous_score = None,
                          he_new_score = None, he_previous_status = Some (mr_status r),
                          he_new_status = Some newStatus, he_note = note,
                          he_actor_id = Some actorId, he_timestamp = now\<rparr>]\<rparr>)
          else Inl InvalidTransition)"

text \<open>Modelled from the spec: the states that the two operations reach from the empty
  store, and the uniqueness invariant of section 3.\<close>

inductive reachable :: "store \<Rightarrow> bool" where
  initial: "reachable empty_store"
| stored: "reachable s \<Longrightarrow> reachable (compute_and_store s candidateId jobId matchScore now)"
| moved: "reachable s \<Longrightarrow> transition s matchRecordId newStatus actorId note now = Inr s'
           \<Longrightarrow> reachable s'"

definition one_per_pair :: "store \<Rightarrow> bool" where
  "one_per_pair s = distinct (map pair_of (records s))"

text \<open>Modelled from the spec: a store after the first score computation for candidate 1
  and job 1, and the record it holds.\<close>

definition first_record :: match_record where
  "first_record = \<lparr>mr_id = 1, mr_candidate_id = 1, mr_job_id = 1, mr_match_score = 1 / 2,
     mr_status = New, mr_updated_at = ''2024-01-01T00:00:00''\<rparr>"

definition one_match_store :: store where
  "one_match_store = compute_and_store empty_store 1 1 (1 / 2) ''2024-01-01T00:00:00''"

section \<open>Auxiliary facts\<close>

lemma truthy_simps [simp]:
  "truthy None = False" "truthy (Some xs) = (xs \<noteq> [])"
  by (simp_all add: truthy_def)

lemma or_empty_simps [simp]:
  "or_empty None = []" "or_empty (Some xs) = xs"
  by (simp_all add: or_empty_def)

lemma not_truthy_or_empty: "\<not> truthy v \<Longrightarrow> or_empty v = []"
  by (cases v) simp_all

lemma truthy_or_empty: "truthy v = (or_empty v \<noteq> [])"
  by (cases v) simp_all

lemma jaccard_range: "finite A \<Longrightarrow> finite B \<Longrightarrow> 0 \<le> jaccard A B \<and> jaccard A B \<le> 1"
proof -
  assume fin: "finite A" "finite B"
  have "card (A \<inter> B) \<le> card (A \<union> B)"
    using fin by (intro card_mono) auto
  then show ?thesis
    by (auto simp add: jaccard_def divide_le_eq_1)
qed

lemma card_union_pos: "finite A \<Longrightarrow> finite B \<Longrightarrow> A \<noteq> {} \<Longrightarrow> 0 < card (A \<union> B)"
  by (simp add: card_gt_0_iff)

lemma calculate_skills_match_jaccard:
  "calculate_skills_match c j =
     jaccard (set (map lower (or_empty (c_skills_array c))))
             (set (map lower (or_empty (j_skills_array j))))"
proof -
  let ?C = "set (map lower (or_empty (c_skills_array c)))"
  let ?J = "set (map lower (or_empty (j_skills_array j)))"
  have C: "(if truthy (c_skills_array c) then ?C else {}) = ?C"
    by (simp add: truthy_or_empty)
  have J: "(if truthy (j_skills_array j) then ?J else {}) = ?J"
    by (simp add: truthy_or_empty)
  have pos: "?C \<noteq> {} \<Longrightarrow> 0 < card (?C \<union> ?J)"
    by (rule card_union_pos) simp_all
  show ?thesis
    unfolding calculate_skills_match_def C J Let_def jaccard_def
    using pos by auto
qed

lemma calculate_skill_match_score_jaccard:
  assumes "jobs d (jcm_job_id m) = Some j" and "candidates d (jcm_candidate_id m) = Some c"
  shows "calculate_skill_match_score d m =
     jaccard (set (map lower (or_empty (j_skills_array j))))
             (set (map lower (or_empty (c_skills_array c))))"
proof -
  let ?C = "set (map lower (or_empty (c_skills_array c)))"
  let ?J = "set (map lower (or_empty (j_skills_array j)))"
  have pos: "?J \<noteq> {} \<Longrightarrow> 0 < card (?J \<union> ?C)"
    by (rule card_union_pos) simp_all
  show ?thesis
    unfolding calculate_skill_match_score_def Let_def jaccard_def
    using pos assms by auto
qed

lemma calculate_score_full:
  assumes "truthy (get_job_embedding d m ja)" and "truthy (get_candidate_embedding d m ca)"
      and "cosine_similarity (get_job_embedding d m ja) (get_candidate_embedding d m ca) = Inr sim"
  shows "\<exists>m'. calculate_score now d m ja ca
            = Inr (0.6 * sim + 0.4 * calculate_skill_match_score d m, m', d)
          \<and> score m' = 0.6 * sim + 0.4 * calculate_skill_match_score d m"
  using assms by (simp add: calculate_score_def Let_def)

lemma calculate_score_raises:
  assumes "truthy (get_job_embedding d m ja)" and "truthy (get_candidate_embedding d m ca)"
      and "cosine_similarity (get_job_embedding d m ja) (get_candidate_embedding d m ca) = Inl e"
  shows "calculate_score now d m ja ca = Inl e"
  using assms by (simp add: calculate_score_def Let_def)

lemma calculate_match_score_full:
  assumes "get_candidate d n co = Some c" and "get_job d n jo = Some j"
      and "truthy (c_embedding c)" and "truthy (j_embedding j)"
      and "calculate_embedding_match (or_empty (c_embedding c)) (or_empty (j_embedding j)) = Inr sim"
  shows "\<exists>n'. calculate_match_score now d n co jo
            = Inr (0.6 * sim + 0.4 * calculate_skills_match c j, n', d)
          \<and> match_score n' = 0.6 * sim + 0.4 * calculate_skills_match c j
          \<and> embedding_match_score n' = sim
          \<and> skills_match_score n' = calculate_skills_match c j"
  using assms by (simp add: calculate_match_score_def Let_def)

lemma calculate_match_score_raises:
  assumes "get_candidate d n co = Some c" and "get_job d n jo = Some j"
      and "truthy (c_embedding c)" and "truthy (j_embedding j)"
      and "calculate_embedding_match (or_empty (c_embedding c)) (or_empty (j_embedding j)) = Inl e"
  shows "calculate_match_score now d n co jo = Inl e"
  using assms by (simp add: calculate_match_score_def Let_def)

lemma jaccard_disjoint: "A \<inter> B = {} \<Longrightarrow> jaccard A B = 0"
  by (simp add: jaccard_def)

lemma disjoint_skills:
  "set (map lower (or_empty (j_skills_array disjoint_job)))
     \<inter> set (map lower (or_empty (c_skills_array disjoint_candidate))) = {}"
  by (simp add: disjoint_job_def disjoint_candidate_def lower_def lower_char_def char_of_def)

lemma calculate_score_fallback:
  assumes "\<not> truthy (get_job_embedding d m ja) \<or> \<not> truthy (get_candidate_embedding d m ca)"
  shows "calculate_score now d m ja ca = Inr (calculate_skill_match_score d m, m, d)"
  using assms by (auto simp add: calculate_score_def Let_def)

lemma calculate_match_score_fallback:
  assumes "get_candidate d n co = Some c" and "get_job d n jo = Some j"
      and "\<not> truthy (c_embedding c) \<or> \<not> truthy (j_embedding j)"
  shows "calculate_match_score now d n co jo
           = Inr (calculate_skills_match c j,
                  n\<lparr>skills_match_score := calculate_skills_match c j,
                    embedding_match_score := 0,
                    match_score := calculate_skills_match c j\<rparr>, d)"
  using assms by (auto simp add: calculate_match_score_def Let_def)

lemma lower_python_sql_go:
  "lower ''python'' = ''python''" "lower ''sql'' = ''sql''" "lower ''go'' = ''go''"
  by (simp_all add: lower_def lower_char_def char_of_def)

lemma jaccard_python_sql_go:
  "jaccard {''python'', ''sql''} {''python'', ''go''} = 1 / 3"
  "jaccard {''python'', ''go''} {''python'', ''sql''} = 1 / 3"
proof -
  have i: "{''python'', ''sql''} \<inter> {''python'', ''go''} = {''python''}"
    "{''python'', ''go''} \<inter> {''python'', ''sql''} = {''python''}"
    by auto
  have u: "{''python'', ''sql''} \<union> {''python'', ''go''} = {''python'', ''sql'', ''go''}"
    "{''python'', ''go''} \<union> {''python'', ''sql''} = {''python'', ''go'', ''sql''}"
    by auto
  show "jaccard {''python'', ''sql''} {''python'', ''go''} = 1 / 3"
    unfolding jaccard_def i u by simp
  show "jaccard {''python'', ''go''} {''python'', ''sql''} = 1 / 3"
    unfolding jaccard_def i u by simp
qed

lemma jaccard_empty: "jaccard {} B = 0" "jaccard A {} = 0"
  by (simp_all add: jaccard_def)

lemma cosine_similarity_missing:
  "\<not> truthy a \<or> \<not> truthy b \<Longrightarrow> cosine_similarity a b = Inr 0"
  by (auto simp add: cosine_similarity_def)

lemma cosine_similarity_unequal_length:
  assumes "u \<noteq> []" and "v \<noteq> []" and "length u \<noteq> length v"
  shows "cosine_similarity (Some u) (Some v) = Inl ValueError"
  using assms by (simp add: cosine_similarity_def np_dot_def)

lemma calculate_embedding_match_unequal_length:
  assumes "length u \<noteq> length v"
  shows "calculate_embedding_match u v = Inl ValueError"
  using assms by (simp add: calculate_embedding_match_def np_dot_def)

lemma np_norm_examples:
  "np_norm [1, 0] = 1" "np_norm [- 1, 0] = 1" "np_norm [0, 0] = 0" "np_norm [1] = 1"
  by (simp_all add: np_norm_def)

lemma calculate_match_score_missing:
  assumes "get_candidate d n co = None \<or> get_job d n jo = None"
  shows "calculate_match_score now d n co jo = Inr (0, n, d)"
  using assms by (auto simp add: calculate_match_score_def split: option.split)

lemma calculate_skill_match_score_missing:
  assumes "jobs d (jcm_job_id m) = None \<or> candidates d (jcm_candidate_id m) = None"
  shows "calculate_skill_match_score d m = 0"
  using assms by (auto simp add: calculate_skill_match_score_def split: option.split)

lemma get_job_embedding_missing:
  "jobs d (jcm_job_id m) = None \<Longrightarrow> \<not> truthy ja \<Longrightarrow> get_job_embedding d m ja = None"
  by (simp add: get_job_embedding_def)

lemma get_candidate_embedding_missing:
  "candidates d (jcm_candidate_id m) = None \<Longrightarrow> \<not> truthy ca
    \<Longrightarrow> get_candidate_embedding d m ca = None"
  by (simp add: get_candidate_embedding_def)

lemma calculate_score_full_record:
  assumes "truthy (get_job_embedding d m ja)" and "truthy (get_candidate_embedding d m ca)"
      and "cosine_similarity (get_job_embedding d m ja) (get_candidate_embedding d m ca) = Inr sim"
  shows "calculate_score now d m ja ca
      = Inr (sim * 0.6 + calculate_skill_match_score d m * 0.4,
             m\<lparr>score := sim * 0.6 + calculate_skill_match_score d m * 0.4,
               match_data := Some (or_empty_dict (match_data m) ++
                 [''embedding_similarity'' \<mapsto> JNumber sim,
                  ''skill_match_score'' \<mapsto> JNumber (calculate_skill_match_score d m * 0.4),
                  ''total_score'' \<mapsto>
                     JNumber (sim * 0.6 + calculate_skill_match_score d m * 0.4),
                  ''last_calculated_at'' \<mapsto> JString now])\<rparr>, d)"
  using assms by (simp add: calculate_score_def Let_def)

lemma calculate_match_score_full_record:
  assumes "get_candidate d n co = Some c" and "get_job d n jo = Some j"
      and "truthy (c_embedding c)" and "truthy (j_embedding j)"
      and "calculate_embedding_match (or_empty (c_embedding c)) (or_empty (j_embedding j)) = Inr sim"
  shows "calculate_match_score now d n co jo
      = Inr (calculate_skills_match c j * 0.4 + sim * 0.6,
             n\<lparr>skills_match_score := calculate_skills_match c j,
               embedding_match_score := sim,
               match_score := calculate_skills_match c j * 0.4 + sim * 0.6,
               cjm_match_data := Some
                 [''skills_match_score'' \<mapsto> JNumber (calculate_skills_match c j),
                  ''embedding_match_score'' \<mapsto> JNumber sim,
                  ''total_score'' \<mapsto> JNumber (calculate_skills_match c j * 0.4 + sim * 0.6),
                  ''calculation_timestamp'' \<mapsto> JString now]\<rparr>, d)"
  using assms by (simp add: calculate_match_score_def Let_def)

lemma disjoint_db_facts:
  "get_job_embedding disjoint_db new_job_candidate_match None = Some [1, 0]"
  "get_candidate_embedding disjoint_db new_job_candidate_match None = Some [1, 0]"
  "jobs disjoint_db (jcm_job_id new_job_candidate_match) = Some disjoint_job"
  "candidates disjoint_db (jcm_candidate_id new_job_candidate_match) = Some disjoint_candidate"
  "get_candidate disjoint_db new_candidate_job_match None = Some disjoint_candidate"
  "get_job disjoint_db new_candidate_job_match None = Some disjoint_job"
  "c_embedding disjoint_candidate = Some [1, 0]" "j_embedding disjoint_job = Some [1, 0]"
  by (simp_all add: get_job_embedding_def get_candidate_embedding_def get_candidate_def
      get_job_def disjoint_db_def disjoint_job_def disjoint_candidate_def
      new_job_candidate_match_def new_candidate_job_match_def)

lemma skills_db_facts:
  "jobs skills_db (jcm_job_id new_job_candidate_match) = Some python_go_job"
  "candidates skills_db (jcm_candidate_id new_job_candidate_match) = Some python_sql_candidate"
  "get_candidate skills_db new_candidate_job_match None = Some python_sql_candidate"
  "get_job skills_db new_candidate_job_match None = Some python_go_job"
  "j_embedding python_go_job = None" "c_embedding python_sql_candidate = None"
  "get_job_embedding skills_db new_job_candidate_match None = None"
  by (simp_all add: get_candidate_def get_job_def get_job_embedding_def skills_db_def
      python_go_job_def python_sql_candidate_def new_job_candidate_match_def
      new_candidate_job_match_def)

lemma unit_similarity:
  "cosine_similarity (Some [1, 0]) (Some [1, 0]) = Inr 1"
  "calculate_embedding_match [1, 0] [1, 0] = Inr 1"
  by (simp_all add: cosine_similarity_def calculate_embedding_match_def np_dot_def
      np_norm_examples)

lemma allowed_iff:
  "allowed a b \<longleftrightarrow>
     (a = New \<and> b = Reviewed) \<or> (a = Reviewed \<and> b = Contacted)
     \<or> ((a = New \<or> a = Reviewed \<or> a = Contacted) \<and> b = Rejected)"
  by (cases a; cases b) simp_all

lemma allowed_irrefl: "\<not> allowed a a"
  by (cases a) simp_all

lemma find_map_same_key:
  assumes "\<And>x. key (f x) = key x"
  shows "find (\<lambda>r. key r = k) (map f xs) = map_option f (find (\<lambda>r. key r = k) xs)"
  using assms by (induction xs) simp_all

lemma transition_found:
  assumes "find (\<lambda>r. mr_id r = i) (records s) = Some r"
  shows "transition s i new actor note now =
     (if new = mr_status r then Inr s
      else if allowed (mr_status r) new
      then Inr (s\<lparr>records :=
                    map (\<lambda>x. if mr_id x = i
                              then x\<lparr>mr_status := new, mr_updated_at := now\<rparr> else x)
                      (records s),
                  history := history s @
                    [\<lparr>he_match_record_id = i, he_previous_score = None,
                      he_new_score = None, he_previous_status = Some (mr_status r),
                      he_new_status = Some new, he_note = note,
                      he_actor_id = Some actor, he_timestamp = now\<rparr>]\<rparr>)
      else Inl InvalidTransition)"
  using assms by (simp add: transition_def)

lemma find_after_transition:
  assumes "find (\<lambda>r. mr_id r = i) xs = Some r"
  shows "find (\<lambda>r. mr_id r = i)
           (map (\<lambda>x. if mr_id x = i then x\<lparr>mr_status := new, mr_updated_at := now\<rparr> else x) xs)
         = Some (r\<lparr>mr_status := new, mr_updated_at := now\<rparr>)"
proof -
  have "find (\<lambda>r. mr_id r = i)
           (map (\<lambda>x. if mr_id x = i then x\<lparr>mr_status := new, mr_updated_at := now\<rparr> else x) xs)
      = map_option (\<lambda>x. if mr_id x = i then x\<lparr>mr_status := new, mr_updated_at := now\<rparr> else x)
          (find (\<lambda>r. mr_id r = i) xs)"
    by (rule find_map_same_key) simp
  moreover from assms have "mr_id r = i"
    by (auto simp add: find_Some_iff)
  ultimately show ?thesis using assms by simp
qed

lemma one_match_store_records: "records one_match_store = [first_record]"
  by (simp add: one_match_store_def compute_and_store_def get_record_def empty_store_def
      fresh_id_def first_record_def)

lemma first_record_fields:
  "mr_id first_record = 1" "mr_status first_record = New"
  "pair_of first_record = (1, 1)" "mr_match_score first_record = 1 / 2"
  by (simp_all add: first_record_def pair_of_def)

lemma find_pair_None:
  "find (\<lambda>r. pair_of r = k) xs = None \<Longrightarrow> k \<notin> set (map pair_of xs)"
  by (auto simp add: find_None_iff)

lemma compute_and_store_one_per_pair:
  assumes "one_per_pair s"
  shows "one_per_pair (compute_and_store s c j v now)"
proof (cases "get_record s c j")
  case None
  then have "(c, j) \<notin> set (map pair_of (records s))"
    unfolding get_record_def by (rule find_pair_None)
  with assms None show ?thesis
    by (simp add: one_per_pair_def compute_and_store_def pair_of_def)
next
  case (Some r)
  have "map pair_of (map (\<lambda>x. if pair_of x = (c, j)
            then x\<lparr>mr_match_score := v, mr_updated_at := now\<rparr> else x) (records s))
      = map pair_of (records s)"
    by (simp add: pair_of_def)
  with assms Some show ?thesis
    by (simp add: one_per_pair_def compute_and_store_def del: map_map)
qed

lemma transition_one_per_pair:
  assumes "one_per_pair s" and "transition s i new actor note now = Inr s'"
  shows "one_per_pair s'"
proof -
  have "map pair_of (map (\<lambda>x. if mr_id x = i
            then x\<lparr>mr_status := new, mr_updated_at := now\<rparr> else x) (records s))
      = map pair_of (records s)"
    by (simp add: pair_of_def)
  with assms show ?thesis
    by (auto simp add: one_per_pair_def transition_def simp del: map_map
        split: option.splits if_splits)
qed

lemma reachable_one_per_pair: "reachable s \<Longrightarrow> one_per_pair s"
proof (induction rule: reachable.induct)
  case initial
  show ?case by (simp add: one_per_pair_def empty_store_def)
next
  case (stored s candidateId jobId matchScore now)
  then show ?case by (simp add: compute_and_store_one_per_pair)
next
  case (moved s matchRecordId newStatus actorId remark now s')
  then show ?case by (blast intro: transition_one_per_pair)
qed

lemma distinct_keys_filter:
  "distinct (map key xs) \<Longrightarrow> length (filter (\<lambda>r. key r = k) xs) \<le> 1"
proof (induction xs)
  case Nil
  show ?case by simp
next
  case (Cons x xs)
  show ?case
  proof (cases "key x = k")
    case True
    with Cons.prems have "k \<notin> key ` set xs" by auto
    then have "filter (\<lambda>r. key r = k) xs = []"
      by (auto simp add: filter_empty_conv)
    with True show ?thesis by simp
  next
    case False
    with Cons show ?thesis by simp
  qed
qed

lemma find_after_store:
  assumes "find (\<lambda>r. pair_of r = k) xs = Some r"
  shows "find (\<lambda>r. pair_of r = k)
           (map (\<lambda>x. if pair_of x = k
                      then x\<lparr>mr_match_score := v, mr_updated_at := now\<rparr> else x) xs)
         = Some (r\<lparr>mr_match_score := v, mr_updated_at := now\<rparr>)"
proof -
  have "find (\<lambda>r. pair_of r = k)
           (map (\<lambda>x. if pair_of x = k
                      then x\<lparr>mr_match_score := v, mr_updated_at := now\<rparr> else x) xs)
      = map_option (\<lambda>x. if pair_of x = k
                      then x\<lparr>mr_match_score := v, mr_updated_at := now\<rparr> else x)
          (find (\<lambda>r. pair_of r = k) xs)"
    by (rule find_map_same_key) (simp add: pair_of_def)
  moreover from assms have "pair_of r = k"
    by (auto simp add: find_Some_iff)
  ultimately show ?thesis using assms by simp
qed

lemma get_record_after_store:
  assumes "get_record s c j = Some r"
  shows "get_record (compute_and_store s c j v now) c j
           = Some (r\<lparr>mr_match_score := v, mr_updated_at := now\<rparr>)"
  using assms find_after_store [where k = "(c, j)" and xs = "records s" and r = r and v = v
      and now = now]
  by (simp add: compute_and_store_def get_record_def)

section \<open>The claims\<close>

subsection \<open>C1: the weighted combination\<close>

text \<open>
  Claim C1. When both embeddings are available (passed in or stored, and not empty), the
  score is 0.6 times the embedding similarity plus 0.4 times the skill overlap, in
  \<open>calculate_score\<close> and in \<open>calculate_match_score\<close>; the record's score field holds
  the same value, and an error of the similarity calculation is the error of the score
  computation. In particular, when the similarity of the two embeddings is 1 and the
  skill sets have no common name, the score is exactly 0.6.
\<close>

theorem weighted_combination:
  "(truthy (get_job_embedding d m ja) \<and> truthy (get_candidate_embedding d m ca) \<longrightarrow>
      (case cosine_similarity (get_job_embedding d m ja) (get_candidate_embedding d m ca) of
         Inl e \<Rightarrow> calculate_score now d m ja ca = Inl e
       | Inr sim \<Rightarrow>
           (\<exists>m'. calculate_score now d m ja ca
                    = Inr (0.6 * sim + 0.4 * calculate_skill_match_score d m, m', d)
                 \<and> score m' = 0.6 * sim + 0.4 * calculate_skill_match_score d m)))
   \<and> (get_candidate d n co = Some c \<and> get_job d n jo = Some j
        \<and> truthy (c_embedding c) \<and> truthy (j_embedding j) \<longrightarrow>
      (case calculate_embedding_match (or_empty (c_embedding c)) (or_empty (j_embedding j)) of
         Inl e \<Rightarrow> calculate_match_score now d n co jo = Inl e
       | Inr sim \<Rightarrow>
           (\<exists>n'. calculate_match_score now d n co jo
                    = Inr (0.6 * sim + 0.4 * calculate_skills_match c j, n', d)
                 \<and> match_score n' = 0.6 * sim + 0.4 * calculate_skills_match c j)))
   \<and> (truthy (get_job_embedding d m ja) \<and> truthy (get_candidate_embedding d m ca)
        \<and> cosine_similarity (get_job_embedding d m ja) (get_candidate_embedding d m ca) = Inr 1
        \<and> jobs d (jcm_job_id m) = Some mj \<and> candidates d (jcm_candidate_id m) = Some mc
        \<and> set (map lower (or_empty (j_skills_array mj)))
            \<inter> set (map lower (or_empty (c_skills_array mc))) = {} \<longrightarrow>
      (\<exists>m'. calculate_score now d m ja ca = Inr (0.6, m', d) \<and> score m' = 0.6))
   \<and> (get_candidate d n co = Some c \<and> get_job d n jo = Some j
        \<and> truthy (c_embedding c) \<and> truthy (j_embedding j)
        \<and> calculate_embedding_match (or_empty (c_embedding c)) (or_empty (j_embedding j))
            = Inr 1
        \<and> set (map lower (or_empty (c_skills_array c)))
            \<inter> set (map lower (or_empty (j_skills_array j))) = {} \<longrightarrow>
      (\<exists>n'. calculate_match_score now d n co jo = Inr (0.6, n', d) \<and> match_score n' = 0.6))"
proof (intro conjI impI)
  assume "truthy (get_job_embedding d m ja) \<and> truthy (get_candidate_embedding d m ca)"
  then show "case cosine_similarity (get_job_embedding d m ja) (get_candidate_embedding d m ca) of
         Inl e \<Rightarrow> calculate_score now d m ja ca = Inl e
       | Inr sim \<Rightarrow>
           (\<exists>m'. calculate_score now d m ja ca
                    = Inr (0.6 * sim + 0.4 * calculate_skill_match_score d m, m', d)
                 \<and> score m' = 0.6 * sim + 0.4 * calculate_skill_match_score d m)"
    using calculate_score_full [of d m ja ca _ now] calculate_score_raises [of d m ja ca _ now]
    by (auto split: sum.split)
next
  assume "get_candidate d n co = Some c \<and> get_job d n jo = Some j
        \<and> truthy (c_embedding c) \<and> truthy (j_embedding j)"
  then show "case calculate_embedding_match (or_empty (c_embedding c)) (or_empty (j_embedding j)) of
         Inl e \<Rightarrow> calculate_match_score now d n co jo = Inl e
       | Inr sim \<Rightarrow>
           (\<exists>n'. calculate_match_score now d n co jo
                    = Inr (0.6 * sim + 0.4 * calculate_skills_match c j, n', d)
                 \<and> match_score n' = 0.6 * sim + 0.4 * calculate_skills_match c j)"
    using calculate_match_score_full [of d n co c jo j _ now]
      calculate_match_score_raises [of d n co c jo j _ now]
    by (auto split: sum.split)
next
  assume a: "truthy (get_job_embedding d m ja) \<and> truthy (get_candidate_embedding d m ca)
        \<and> cosine_similarity (get_job_embedding d m ja) (get_candidate_embedding d m ca) = Inr 1
        \<and> jobs d (jcm_job_id m) = Some mj \<and> candidates d (jcm_candidate_id m) = Some mc
        \<and> set (map lower (or_empty (j_skills_array mj)))
            \<inter> set (map lower (or_empty (c_skills_array mc))) = {}"
  then have skill: "calculate_skill_match_score d m = 0"
    by (simp add: calculate_skill_match_score_jaccard jaccard_disjoint)
  from a have "truthy (get_job_embedding d m ja)" "truthy (get_candidate_embedding d m ca)"
    "cosine_similarity (get_job_embedding d m ja) (get_candidate_embedding d m ca) = Inr 1"
    by simp_all
  from calculate_score_full [OF this, of now] skill
  show "\<exists>m'. calculate_score now d m ja ca = Inr (0.6, m', d) \<and> score m' = 0.6"
    by simp
next
  assume a: "get_candidate d n co = Some c \<and> get_job d n jo = Some j
        \<and> truthy (c_embedding c) \<and> truthy (j_embedding j)
        \<and> calculate_embedding_match (or_empty (c_embedding c)) (or_empty (j_embedding j))
            = Inr 1
        \<and> set (map lower (or_empty (c_skills_array c)))
            \<inter> set (map lower (or_empty (j_skills_array j))) = {}"
  then have skill: "calculate_skills_match c j = 0"
    by (simp add: calculate_skills_match_jaccard jaccard_disjoint)
  from a have "get_candidate d n co = Some c" "get_job d n jo = Some j"
    "truthy (c_embedding c)" "truthy (j_embedding j)"
    "calculate_embedding_match (or_empty (c_embedding c)) (or_empty (j_embedding j)) = Inr 1"
    by simp_all
  from calculate_match_score_full [OF this, of now] skill
  show "\<exists>n'. calculate_match_score now d n co jo = Inr (0.6, n', d) \<and> match_score n' = 0.6"
    by auto
qed

theorem weighted_combination_witness:
  "truthy (get_job_embedding disjoint_db new_job_candidate_match None)
   \<and> truthy (get_candidate_embedding disjoint_db new_job_candidate_match None)
   \<and> cosine_similarity (get_job_embedding disjoint_db new_job_candidate_match None)
        (get_candidate_embedding disjoint_db new_job_candidate_match None) = Inr 1
   \<and> jobs disjoint_db (jcm_job_id new_job_candidate_match) = Some disjoint_job
   \<and> candidates disjoint_db (jcm_candidate_id new_job_candidate_match)
        = Some disjoint_candidate
   \<and> set (map lower (or_empty (j_skills_array disjoint_job)))
       \<inter> set (map lower (or_empty (c_skills_array disjoint_candidate))) = {}
   \<and> get_candidate disjoint_db new_candidate_job_match None = Some disjoint_candidate
   \<and> get_job disjoint_db new_candidate_job_match None = Some disjoint_job
   \<and> truthy (c_embedding disjoint_candidate) \<and> truthy (j_embedding disjoint_job)
   \<and> calculate_embedding_match (or_empty (c_embedding disjoint_candidate))
        (or_empty (j_embedding disjoint_job)) = Inr 1
   \<and> (\<exists>m'. calculate_score ''2024-01-01T00:00:00'' disjoint_db new_job_candidate_match None None
              = Inr (0.6, m', disjoint_db) \<and> score m' = 0.6)
   \<and> (\<exists>n'. calculate_match_score ''2024-01-01T00:00:00'' disjoint_db new_candidate_job_match None None
              = Inr (0.6, n', disjoint_db) \<and> match_score n' = 0.6)"
proof -
  have s: "set (map lower (or_empty (c_skills_array disjoint_candidate)))
     \<inter> set (map lower (or_empty (j_skills_array disjoint_job))) = {}"
    using disjoint_skills by (simp add: Int_commute)
  show ?thesis
    using weighted_combination [of disjoint_db new_job_candidate_match None None
        "''2024-01-01T00:00:00''" new_candidate_job_match None disjoint_candidate None disjoint_job
        disjoint_job disjoint_candidate]
      s disjoint_skills
    by (simp add: disjoint_db_facts unit_similarity)
qed

subsection \<open>C2: the skill-only fallback\<close>

text \<open>
  Claim C2. When the job embedding or the candidate embedding is missing (\<open>None\<close> or
  empty), no weight is applied: the score returned is the skill overlap itself. In
  \<open>calculate_match_score\<close> the record's match score is set to it as well;
  \<open>calculate_score\<close> returns it and leaves the record as it was. Candidate skills
  python and sql against job skills python and go, without embeddings, give the skill
  score 1/3 and the match score 1/3.
\<close>

theorem skill_only_fallback:
  "(\<not> truthy (get_job_embedding d m ja) \<or> \<not> truthy (get_candidate_embedding d m ca) \<longrightarrow>
      calculate_score now d m ja ca = Inr (calculate_skill_match_score d m, m, d))
   \<and> (get_candidate d n co = Some c \<and> get_job d n jo = Some j
        \<and> (\<not> truthy (c_embedding c) \<or> \<not> truthy (j_embedding j)) \<longrightarrow>
      (\<exists>n'. calculate_match_score now d n co jo = Inr (calculate_skills_match c j, n', d)
            \<and> match_score n' = calculate_skills_match c j
            \<and> skills_match_score n' = calculate_skills_match c j))
   \<and> (jobs d (jcm_job_id m) = Some mj \<and> candidates d (jcm_candidate_id m) = Some mc
        \<and> set (or_empty (c_skills_array mc)) = {''python'', ''sql''}
        \<and> set (or_empty (j_skills_array mj)) = {''python'', ''go''}
        \<and> \<not> truthy ja \<and> \<not> truthy ca \<and> j_embedding mj = None \<and> c_embedding mc = None \<longrightarrow>
      calculate_skill_match_score d m = 1 / 3
      \<and> calculate_score now d m ja ca = Inr (1 / 3, m, d))
   \<and> (get_candidate d n co = Some c \<and> get_job d n jo = Some j
        \<and> set (or_empty (c_skills_array c)) = {''python'', ''sql''}
        \<and> set (or_empty (j_skills_array j)) = {''python'', ''go''}
        \<and> j_embedding j = None \<and> c_embedding c = None \<longrightarrow>
      (\<exists>n'. calculate_match_score now d n co jo = Inr (1 / 3, n', d)
            \<and> match_score n' = 1 / 3 \<and> skills_match_score n' = 1 / 3))"
proof (intro conjI impI)
  assume "\<not> truthy (get_job_embedding d m ja) \<or> \<not> truthy (get_candidate_embedding d m ca)"
  then show "calculate_score now d m ja ca = Inr (calculate_skill_match_score d m, m, d)"
    by (rule calculate_score_fallback)
next
  assume "get_candidate d n co = Some c \<and> get_job d n jo = Some j
        \<and> (\<not> truthy (c_embedding c) \<or> \<not> truthy (j_embedding j))"
  then show "\<exists>n'. calculate_match_score now d n co jo = Inr (calculate_skills_match c j, n', d)
            \<and> match_score n' = calculate_skills_match c j
            \<and> skills_match_score n' = calculate_skills_match c j"
    using calculate_match_score_fallback [of d n co c jo j now] by auto
next
  assume a: "jobs d (jcm_job_id m) = Some mj \<and> candidates d (jcm_candidate_id m) = Some mc
        \<and> set (or_empty (c_skills_array mc)) = {''python'', ''sql''}
        \<and> set (or_empty (j_skills_array mj)) = {''python'', ''go''}
        \<and> \<not> truthy ja \<and> \<not> truthy ca \<and> j_embedding mj = None \<and> c_embedding mc = None"
  then show "calculate_skill_match_score d m = 1 / 3"
    by (simp add: calculate_skill_match_score_jaccard lower_python_sql_go jaccard_python_sql_go)
next
  assume a: "jobs d (jcm_job_id m) = Some mj \<and> candidates d (jcm_candidate_id m) = Some mc
        \<and> set (or_empty (c_skills_array mc)) = {''python'', ''sql''}
        \<and> set (or_empty (j_skills_array mj)) = {''python'', ''go''}
        \<and> \<not> truthy ja \<and> \<not> truthy ca \<and> j_embedding mj = None \<and> c_embedding mc = None"
  then have skill: "calculate_skill_match_score d m = 1 / 3"
    by (simp add: calculate_skill_match_score_jaccard lower_python_sql_go jaccard_python_sql_go)
  from a have "\<not> truthy (get_job_embedding d m ja)"
    by (simp add: get_job_embedding_def)
  then have "calculate_score now d m ja ca = Inr (calculate_skill_match_score d m, m, d)"
    by (simp add: calculate_score_fallback)
  with skill show "calculate_score now d m ja ca = Inr (1 / 3, m, d)"
    by simp
next
  assume a: "get_candidate d n co = Some c \<and> get_job d n jo = Some j
        \<and> set (or_empty (c_skills_array c)) = {''python'', ''sql''}
        \<and> set (or_empty (j_skills_array j)) = {''python'', ''go''}
        \<and> j_embedding j = None \<and> c_embedding c = None"
  then have skill: "calculate_skills_match c j = 1 / 3"
    by (simp add: calculate_skills_match_jaccard lower_python_sql_go jaccard_python_sql_go)
  from a have "get_candidate d n co = Some c" "get_job d n jo = Some j"
    "\<not> truthy (c_embedding c) \<or> \<not> truthy (j_embedding j)"
    by simp_all
  from calculate_match_score_fallback [OF this, of now] skill
  show "\<exists>n'. calculate_match_score now d n co jo = Inr (1 / 3, n', d)
            \<and> match_score n' = 1 / 3 \<and> skills_match_score n' = 1 / 3"
    by auto
qed

theorem skill_only_fallback_witness:
  "jobs skills_db (jcm_job_id new_job_candidate_match) = Some python_go_job
   \<and> candidates skills_db (jcm_candidate_id new_job_candidate_match) = Some python_sql_candidate
   \<and> get_candidate skills_db new_candidate_job_match None = Some python_sql_candidate
   \<and> get_job skills_db new_candidate_job_match None = Some python_go_job
   \<and> set (or_empty (c_skills_array python_sql_candidate)) = {''python'', ''sql''}
   \<and> set (or_empty (j_skills_array python_go_job)) = {''python'', ''go''}
   \<and> j_embedding python_go_job = None \<and> c_embedding python_sql_candidate = None
   \<and> calculate_skill_match_score skills_db new_job_candidate_match = 1 / 3
   \<and> calculate_score ''2024-01-01T00:00:00'' skills_db new_job_candidate_match None None
        = Inr (1 / 3, new_job_candidate_match, skills_db)
   \<and> (\<exists>n'. calculate_match_score ''2024-01-01T00:00:00'' skills_db new_candidate_job_match
               None None = Inr (1 / 3, n', skills_db)
            \<and> match_score n' = 1 / 3 \<and> skills_match_score n' = 1 / 3)"
proof -
  have e: "jobs skills_db (jcm_job_id new_job_candidate_match) = Some python_go_job"
    "candidates skills_db (jcm_candidate_id new_job_candidate_match) = Some python_sql_candidate"
    "get_candidate skills_db new_candidate_job_match None = Some python_sql_candidate"
    "get_job skills_db new_candidate_job_match None = Some python_go_job"
    "set (or_empty (c_skills_array python_sql_candidate)) = {''python'', ''sql''}"
    "set (or_empty (j_skills_array python_go_job)) = {''python'', ''go''}"
    "j_embedding python_go_job = None" "c_embedding python_sql_candidate = None"
    by (simp_all add: get_candidate_def get_job_def skills_db_def python_go_job_def
        python_sql_candidate_def new_job_candidate_match_def new_candidate_job_match_def)
  have g: "get_job_embedding skills_db new_job_candidate_match None = None"
    by (simp add: get_job_embedding_def e)
  show ?thesis
    using skill_only_fallback [of skills_db new_job_candidate_match None None
        "''2024-01-01T00:00:00''" new_candidate_job_match None python_sql_candidate None
        python_go_job python_go_job python_sql_candidate]
      e g
    by simp
qed

subsection \<open>C8: the skill overlap\<close>

text \<open>
  Claim C8 says that skill names are case-folded and trimmed before the Jaccard
  similarity is taken. The code lower-cases them and does not trim: a candidate skill
  with a leading blank does not meet the job's skill of the same name, and the overlap
  is 0 where the specification's overlap is 1.
\<close>

theorem skill_overlap_untrimmed_counterexample:
  "calculate_skills_match padded_candidate python_job = 0
   \<and> calculate_skill_match_score padded_db new_job_candidate_match = 0
   \<and> spec_skill_overlap (or_empty (c_skills_array padded_candidate))
        (or_empty (j_skills_array python_job)) = 1"
proof -
  have l: "lower '' python'' = '' python''" "lower ''python'' = ''python''"
    by (simp_all add: lower_def lower_char_def char_of_def)
  have t: "trim '' python'' = ''python''" "trim ''python'' = ''python''"
    by (simp_all add: trim_def is_space_def)
  have "calculate_skills_match padded_candidate python_job = 0"
    by (simp add: calculate_skills_match_jaccard padded_candidate_def python_job_def l jaccard_def)
  moreover have "calculate_skill_match_score padded_db new_job_candidate_match = 0"
    by (simp add: calculate_skill_match_score_def padded_db_def new_job_candidate_match_def
        padded_candidate_def python_job_def l)
  moreover have "spec_skill_overlap (or_empty (c_skills_array padded_candidate))
        (or_empty (j_skills_array python_job)) = 1"
    by (simp add: spec_skill_overlap_def padded_candidate_def python_job_def l t jaccard_def)
  ultimately show ?thesis by simp
qed

text \<open>
  Claim C8, amended. The skill overlap is the Jaccard similarity of the two sets of
  lower-cased (not trimmed) skill names, in \<open>_calculate_skills_match\<close> and, when job
  and candidate exist, in \<open>_calculate_skill_match_score\<close>; it is 0 when either skill
  list is missing or empty, and it lies between 0 and 1.
\<close>

theorem skill_overlap_lowercased:
  "calculate_skills_match c j
     = jaccard (set (map lower (or_empty (c_skills_array c))))
               (set (map lower (or_empty (j_skills_array j))))
   \<and> (jobs d (jcm_job_id m) = Some j \<and> candidates d (jcm_candidate_id m) = Some c \<longrightarrow>
        calculate_skill_match_score d m
          = jaccard (set (map lower (or_empty (j_skills_array j))))
                    (set (map lower (or_empty (c_skills_array c)))))
   \<and> (\<not> truthy (c_skills_array c) \<or> \<not> truthy (j_skills_array j) \<longrightarrow>
        calculate_skills_match c j = 0)
   \<and> (jobs d (jcm_job_id m) = Some j \<and> candidates d (jcm_candidate_id m) = Some c
        \<and> (\<not> truthy (c_skills_array c) \<or> \<not> truthy (j_skills_array j)) \<longrightarrow>
        calculate_skill_match_score d m = 0)
   \<and> 0 \<le> calculate_skills_match c j \<and> calculate_skills_match c j \<le> 1
   \<and> 0 \<le> calculate_skill_match_score d m \<and> calculate_skill_match_score d m \<le> 1"
proof -
  let ?C = "set (map lower (or_empty (c_skills_array c)))"
  let ?J = "set (map lower (or_empty (j_skills_array j)))"
  have empty: "\<not> truthy (c_skills_array c) \<or> \<not> truthy (j_skills_array j)
      \<Longrightarrow> jaccard ?C ?J = 0 \<and> jaccard ?J ?C = 0"
    by (auto simp add: not_truthy_or_empty jaccard_empty)
  have range1: "0 \<le> calculate_skills_match c j \<and> calculate_skills_match c j \<le> 1"
    by (simp add: calculate_skills_match_jaccard jaccard_range)
  have range2: "0 \<le> calculate_skill_match_score d m \<and> calculate_skill_match_score d m \<le> 1"
  proof (cases "jobs d (jcm_job_id m)")
    case None
    then show ?thesis by (simp add: calculate_skill_match_score_def)
  next
    case (Some mj)
    show ?thesis
    proof (cases "candidates d (jcm_candidate_id m)")
      case None
      with Some show ?thesis by (simp add: calculate_skill_match_score_def)
    next
      case (Some mc)
      with \<open>jobs d (jcm_job_id m) = Some mj\<close> show ?thesis
        by (simp add: calculate_skill_match_score_jaccard jaccard_range)
    qed
  qed
  show ?thesis
    using empty range1 range2
    by (simp add: calculate_skills_match_jaccard calculate_skill_match_score_jaccard)
qed

theorem skill_overlap_lowercased_witness:
  "jobs skills_db (jcm_job_id new_job_candidate_match) = Some python_go_job
   \<and> candidates skills_db (jcm_candidate_id new_job_candidate_match) = Some python_sql_candidate
   \<and> calculate_skills_match python_sql_candidate python_go_job = 1 / 3
   \<and> calculate_skill_match_score skills_db new_job_candidate_match = 1 / 3
   \<and> jobs unskilled_db (jcm_job_id new_job_candidate_match) = Some python_job
   \<and> candidates unskilled_db (jcm_candidate_id new_job_candidate_match) = Some unskilled_candidate
   \<and> \<not> truthy (c_skills_array unskilled_candidate)
   \<and> calculate_skills_match unskilled_candidate python_job = 0
   \<and> calculate_skill_match_score unskilled_db new_job_candidate_match = 0"
proof -
  have e: "jobs skills_db (jcm_job_id new_job_candidate_match) = Some python_go_job"
    "candidates skills_db (jcm_candidate_id new_job_candidate_match) = Some python_sql_candidate"
    "jobs unskilled_db (jcm_job_id new_job_candidate_match) = Some python_job"
    "candidates unskilled_db (jcm_candidate_id new_job_candidate_match) = Some unskilled_candidate"
    "\<not> truthy (c_skills_array unskilled_candidate)"
    by (simp_all add: skills_db_def unskilled_db_def new_job_candidate_match_def
        unskilled_candidate_def)
  have s: "set (map lower (or_empty (c_skills_array python_sql_candidate))) = {''python'', ''sql''}"
    "set (map lower (or_empty (j_skills_array python_go_job))) = {''python'', ''go''}"
    by (simp_all add: python_sql_candidate_def python_go_job_def lower_python_sql_go)
  show ?thesis
    using skill_overlap_lowercased [of python_sql_candidate python_go_job skills_db
        new_job_candidate_match]
      skill_overlap_lowercased [of unskilled_candidate python_job unskilled_db
        new_job_candidate_match]
      e s jaccard_python_sql_go
    by simp
qed

subsection \<open>C9: the range of the similarity\<close>

text \<open>
  Claim C9 is not proved: the code breaks it where floating-point arithmetic leaves the
  numbers. This embedding reads floats as reals, in which the quotient of the dot
  product and the two norms is always a number, so the case cannot be shown here. In the
  code the dot product of \<^verbatim>\<open>[1e200, 1.0]\<close> and \<^verbatim>\<open>[-1e200, 1.0]\<close> overflows to minus
  infinity and both norms to infinity; the quotient is not a number, and
  \<^verbatim>\<open>max(0.0, min(1.0, nan))\<close> is 1.0, although the cosine of the two vectors is
  negative. The clamp at the end of \<open>_cosine_similarity\<close> and of
  \<open>_calculate_embedding_match\<close> misses that case. What the claim says of absent or empty
  vectors is part of the amended claim C7 below.
\<close>

subsection \<open>C7: embeddings of unequal length\<close>

text \<open>
  Claim C7 says that every pair of vectors of unequal length is refused with an error.
  \<open>_cosine_similarity\<close> returns 0 when one of the two is empty, whatever the length of
  the other.
\<close>

theorem unequal_length_counterexample:
  "length ([] :: vector) \<noteq> length [1, 2, 3 :: real]
   \<and> cosine_similarity (Some []) (Some [1, 2, 3]) = Inr 0"
  by (simp add: cosine_similarity_def)

text \<open>
  Claim C7, amended. Two non-empty embedding vectors of unequal length make the
  similarity calculation raise: numpy's \<open>ValueError\<close> for misaligned shapes, the only
  dimension error the code has. The error leaves \<open>calculate_score\<close> and
  \<open>calculate_match_score\<close> as it is, and no score is returned. A pair with an empty or
  absent vector is not an error for \<open>_cosine_similarity\<close>, which returns 0.
\<close>

theorem unequal_length_raises:
  "(u \<noteq> [] \<and> v \<noteq> [] \<and> length u \<noteq> length v \<longrightarrow>
      cosine_similarity (Some u) (Some v) = Inl ValueError
      \<and> calculate_embedding_match u v = Inl ValueError)
   \<and> (get_job_embedding d m ja = Some u \<and> get_candidate_embedding d m ca = Some v
        \<and> u \<noteq> [] \<and> v \<noteq> [] \<and> length u \<noteq> length v \<longrightarrow>
      calculate_score now d m ja ca = Inl ValueError)
   \<and> (get_candidate d n co = Some c \<and> get_job d n jo = Some j
        \<and> c_embedding c = Some v \<and> j_embedding j = Some u
        \<and> u \<noteq> [] \<and> v \<noteq> [] \<and> length u \<noteq> length v \<longrightarrow>
      calculate_match_score now d n co jo = Inl ValueError)
   \<and> (\<not> truthy a \<or> \<not> truthy b \<longrightarrow> cosine_similarity a b = Inr 0)"
proof (intro conjI impI)
  assume "u \<noteq> [] \<and> v \<noteq> [] \<and> length u \<noteq> length v"
  then show "cosine_similarity (Some u) (Some v) = Inl ValueError"
    by (simp add: cosine_similarity_unequal_length)
next
  assume "u \<noteq> [] \<and> v \<noteq> [] \<and> length u \<noteq> length v"
  then show "calculate_embedding_match u v = Inl ValueError"
    by (simp add: calculate_embedding_match_unequal_length)
next
  assume a: "get_job_embedding d m ja = Some u \<and> get_candidate_embedding d m ca = Some v
        \<and> u \<noteq> [] \<and> v \<noteq> [] \<and> length u \<noteq> length v"
  then have "cosine_similarity (get_job_embedding d m ja) (get_candidate_embedding d m ca)
      = Inl ValueError"
    by (simp add: cosine_similarity_unequal_length)
  with a show "calculate_score now d m ja ca = Inl ValueError"
    by (simp add: calculate_score_raises)
next
  assume a: "get_candidate d n co = Some c \<and> get_job d n jo = Some j
        \<and> c_embedding c = Some v \<and> j_embedding j = Some u
        \<and> u \<noteq> [] \<and> v \<noteq> [] \<and> length u \<noteq> length v"
  then have "calculate_embedding_match (or_empty (c_embedding c)) (or_empty (j_embedding j))
      = Inl ValueError"
    by (simp add: calculate_embedding_match_unequal_length)
  with a show "calculate_match_score now d n co jo = Inl ValueError"
    using calculate_match_score_raises [of d n co c jo j ValueError now] by simp
next
  assume "\<not> truthy a \<or> \<not> truthy b"
  then show "cosine_similarity a b = Inr 0"
    by (rule cosine_similarity_missing)
qed

theorem unequal_length_raises_witness:
  "get_job_embedding mismatched_db new_job_candidate_match None = Some [1, 0]
   \<and> get_candidate_embedding mismatched_db new_job_candidate_match None = Some [1]
   \<and> get_candidate mismatched_db new_candidate_job_match None = Some narrow_candidate
   \<and> get_job mismatched_db new_candidate_job_match None = Some wide_job
   \<and> c_embedding narrow_candidate = Some [1] \<and> j_embedding wide_job = Some [1, 0]
   \<and> length [1, 0 :: real] \<noteq> length [1 :: real]
   \<and> cosine_similarity (Some [1, 0]) (Some [1]) = Inl ValueError
   \<and> calculate_embedding_match [1, 0] [1] = Inl ValueError
   \<and> calculate_score ''2024-01-01T00:00:00'' mismatched_db new_job_candidate_match None None
        = Inl ValueError
   \<and> calculate_match_score ''2024-01-01T00:00:00'' mismatched_db new_candidate_job_match
        None None = Inl ValueError
   \<and> \<not> truthy (Some ([] :: vector))
   \<and> cosine_similarity (Some []) (Some [1, 0]) = Inr 0"
proof -
  have e: "get_job_embedding mismatched_db new_job_candidate_match None = Some [1, 0]"
    "get_candidate_embedding mismatched_db new_job_candidate_match None = Some [1]"
    "get_candidate mismatched_db new_candidate_job_match None = Some narrow_candidate"
    "get_job mismatched_db new_candidate_job_match None = Some wide_job"
    "c_embedding narrow_candidate = Some [1]" "j_embedding wide_job = Some [1, 0]"
    by (simp_all add: get_job_embedding_def get_candidate_embedding_def get_candidate_def
        get_job_def mismatched_db_def wide_job_def narrow_candidate_def
        new_job_candidate_match_def new_candidate_job_match_def)
  show ?thesis
    using unequal_length_raises [of "[1, 0]" "[1]" mismatched_db new_job_candidate_match None
        None "''2024-01-01T00:00:00''" new_candidate_job_match None narrow_candidate None
        wide_job "Some []" "Some [1, 0]"]
      e
    by simp
qed

subsection \<open>C10: a missing job or candidate\<close>

text \<open>
  Claim C10 says that every score computation returns 0 when the job or the candidate
  does not exist. \<open>calculate_score\<close> takes the embeddings as optional arguments; when
  the caller supplies both, it computes their similarity although neither entity
  exists, and returns 0.6 for two identical embeddings.
\<close>

theorem missing_entity_counterexample:
  "jobs empty_db (jcm_job_id new_job_candidate_match) = None
   \<and> candidates empty_db (jcm_candidate_id new_job_candidate_match) = None
   \<and> (\<exists>m'. calculate_score ''2024-01-01T00:00:00'' empty_db new_job_candidate_match
               (Some [1, 0]) (Some [1, 0]) = Inr (0.6, m', empty_db))"
proof -
  have e: "jobs empty_db (jcm_job_id new_job_candidate_match) = None"
    "candidates empty_db (jcm_candidate_id new_job_candidate_match) = None"
    by (simp_all add: empty_db_def)
  have g: "get_job_embedding empty_db new_job_candidate_match (Some [1, 0]) = Some [1, 0]"
    "get_candidate_embedding empty_db new_job_candidate_match (Some [1, 0]) = Some [1, 0]"
    by (simp_all add: get_job_embedding_def get_candidate_embedding_def)
  have s: "cosine_similarity (Some [1, 0]) (Some [1, 0]) = Inr 1"
    by (rule unit_similarity(1))
  have "\<exists>m'. calculate_score ''2024-01-01T00:00:00'' empty_db new_job_candidate_match
               (Some [1, 0]) (Some [1, 0]) = Inr (0.6, m', empty_db)"
    using calculate_score_full [of empty_db new_job_candidate_match "Some [1, 0]" "Some [1, 0]" 1
        "''2024-01-01T00:00:00''"]
    by (auto simp add: g s calculate_skill_match_score_missing e)
  with e show ?thesis by simp
qed

text \<open>
  Claim C10, amended. When the candidate or the job does not exist,
  \<open>calculate_match_score\<close> returns 0 and leaves the record as it was, and
  \<open>_calculate_skill_match_score\<close> returns 0; no error is raised. \<open>calculate_score\<close>
  returns 0 when the embedding of a missing entity is not supplied by the caller. When
  both embeddings are available all the same, it returns 0.6 times their similarity: the
  skill part is 0.
\<close>

theorem missing_entity_zero:
  "(get_candidate d n co = None \<or> get_job d n jo = None \<longrightarrow>
      calculate_match_score now d n co jo = Inr (0, n, d))
   \<and> (jobs d (jcm_job_id m) = None \<or> candidates d (jcm_candidate_id m) = None \<longrightarrow>
      calculate_skill_match_score d m = 0)
   \<and> (jobs d (jcm_job_id m) = None \<and> \<not> truthy ja
        \<or> candidates d (jcm_candidate_id m) = None \<and> \<not> truthy ca \<longrightarrow>
      calculate_score now d m ja ca = Inr (0, m, d))
   \<and> ((jobs d (jcm_job_id m) = None \<or> candidates d (jcm_candidate_id m) = None)
        \<and> truthy (get_job_embedding d m ja) \<and> truthy (get_candidate_embedding d m ca)
        \<and> cosine_similarity (get_job_embedding d m ja) (get_candidate_embedding d m ca) = Inr sim
        \<longrightarrow> (\<exists>m'. calculate_score now d m ja ca = Inr (0.6 * sim, m', d)))"
proof (intro conjI impI)
  assume "get_candidate d n co = None \<or> get_job d n jo = None"
  then show "calculate_match_score now d n co jo = Inr (0, n, d)"
    by (rule calculate_match_score_missing)
next
  assume "jobs d (jcm_job_id m) = None \<or> candidates d (jcm_candidate_id m) = None"
  then show "calculate_skill_match_score d m = 0"
    by (rule calculate_skill_match_score_missing)
next
  assume a: "jobs d (jcm_job_id m) = None \<and> \<not> truthy ja
        \<or> candidates d (jcm_candidate_id m) = None \<and> \<not> truthy ca"
  then have "\<not> truthy (get_job_embedding d m ja) \<or> \<not> truthy (get_candidate_embedding d m ca)"
    by (auto simp add: get_job_embedding_missing get_candidate_embedding_missing)
  then have "calculate_score now d m ja ca = Inr (calculate_skill_match_score d m, m, d)"
    by (rule calculate_score_fallback)
  moreover from a have "calculate_skill_match_score d m = 0"
    by (auto simp add: calculate_skill_match_score_missing)
  ultimately show "calculate_score now d m ja ca = Inr (0, m, d)"
    by simp
next
  assume a: "(jobs d (jcm_job_id m) = None \<or> candidates d (jcm_candidate_id m) = None)
        \<and> truthy (get_job_embedding d m ja) \<and> truthy (get_candidate_embedding d m ca)
        \<and> cosine_similarity (get_job_embedding d m ja) (get_candidate_embedding d m ca) = Inr sim"
  then have "calculate_skill_match_score d m = 0"
    by (simp add: calculate_skill_match_score_missing)
  with a calculate_score_full [of d m ja ca sim now]
  show "\<exists>m'. calculate_score now d m ja ca = Inr (0.6 * sim, m', d)"
    by auto
qed

theorem missing_entity_zero_witness:
  "get_candidate empty_db new_candidate_job_match None = None
   \<and> jobs empty_db (jcm_job_id new_job_candidate_match) = None
   \<and> \<not> truthy (None :: vector option)
   \<and> calculate_match_score ''2024-01-01T00:00:00'' empty_db new_candidate_job_match None None
        = Inr (0, new_candidate_job_match, empty_db)
   \<and> calculate_skill_match_score empty_db new_job_candidate_match = 0
   \<and> calculate_score ''2024-01-01T00:00:00'' empty_db new_job_candidate_match None None
        = Inr (0, new_job_candidate_match, empty_db)
   \<and> truthy (get_job_embedding empty_db new_job_candidate_match (Some [1, 0]))
   \<and> truthy (get_candidate_embedding empty_db new_job_candidate_match (Some [1, 0]))
   \<and> cosine_similarity (get_job_embedding empty_db new_job_candidate_match (Some [1, 0]))
        (get_candidate_embedding empty_db new_job_candidate_match (Some [1, 0])) = Inr 1
   \<and> (\<exists>m'. calculate_score ''2024-01-01T00:00:00'' empty_db new_job_candidate_match
               (Some [1, 0]) (Some [1, 0]) = Inr (0.6, m', empty_db))"
proof -
  have e: "get_candidate empty_db new_candidate_job_match None = None"
    "jobs empty_db (jcm_job_id new_job_candidate_match) = None"
    by (simp_all add: empty_db_def get_candidate_def)
  have g: "get_job_embedding empty_db new_job_candidate_match (Some [1, 0]) = Some [1, 0]"
    "get_candidate_embedding empty_db new_job_candidate_match (Some [1, 0]) = Some [1, 0]"
    by (simp_all add: get_job_embedding_def get_candidate_embedding_def)
  have s: "cosine_similarity (Some [1, 0]) (Some [1, 0]) = Inr 1"
    by (rule unit_similarity(1))
  show ?thesis
    using missing_entity_zero [of empty_db new_candidate_job_match None None
        "''2024-01-01T00:00:00''" new_job_candidate_match None None 1]
      missing_entity_zero [of empty_db new_candidate_job_match None None
        "''2024-01-01T00:00:00''" new_job_candidate_match "Some [1, 0]" "Some [1, 0]" 1]
      e g s
    by simp
qed

subsection \<open>C6: the score detail\<close>

text \<open>
  Claim C6 says that every score computation records a detail payload, on the fallback
  path too. On the skill-only path neither implementation touches \<open>match_data\<close>: a
  record that had none still has none after the computation.
\<close>

theorem score_detail_counterexample:
  "(\<exists>r m'. calculate_score ''2024-01-01T00:00:00'' skills_db new_job_candidate_match None None
              = Inr (r, m', skills_db) \<and> match_data m' = None)
   \<and> (\<exists>r n'. calculate_match_score ''2024-01-01T00:00:00'' skills_db new_candidate_job_match
                None None = Inr (r, n', skills_db) \<and> cjm_match_data n' = None)"
proof -
  have e: "get_candidate skills_db new_candidate_job_match None = Some python_sql_candidate"
    "get_job skills_db new_candidate_job_match None = Some python_go_job"
    "\<not> truthy (c_embedding python_sql_candidate)"
    "\<not> truthy (get_job_embedding skills_db new_job_candidate_match None)"
    by (simp_all add: get_candidate_def get_job_def get_job_embedding_def skills_db_def
        new_candidate_job_match_def new_job_candidate_match_def python_sql_candidate_def
        python_go_job_def)
  have "calculate_score ''2024-01-01T00:00:00'' skills_db new_job_candidate_match None None
      = Inr (calculate_skill_match_score skills_db new_job_candidate_match,
             new_job_candidate_match, skills_db)"
    using e by (simp add: calculate_score_fallback)
  moreover have "match_data new_job_candidate_match = None"
    by (simp add: new_job_candidate_match_def)
  moreover have "\<exists>r n'. calculate_match_score ''2024-01-01T00:00:00'' skills_db
      new_candidate_job_match None None = Inr (r, n', skills_db) \<and> cjm_match_data n' = None"
    using calculate_match_score_fallback [of skills_db new_candidate_job_match None
        python_sql_candidate None python_go_job "''2024-01-01T00:00:00''"] e
    by (simp add: new_candidate_job_match_def)
  ultimately show ?thesis by simp
qed

text \<open>
  Claim C6, amended. Only the full combination records a detail. \<open>calculate_score\<close>
  adds to \<open>match_data\<close> the embedding similarity, the skill part of the score (0.4
  times the overlap), the total score and the time of the computation;
  \<open>calculate_match_score\<close> replaces \<open>match_data\<close> by the skill score, the embedding
  score, the total score and the time, and nothing else. No entry names the path taken.
  On the skill-only path \<open>match_data\<close> is left as it was.
\<close>

theorem score_detail_full_path_only:
  "(truthy (get_job_embedding d m ja) \<and> truthy (get_candidate_embedding d m ca)
      \<and> cosine_similarity (get_job_embedding d m ja) (get_candidate_embedding d m ca) = Inr sim
      \<longrightarrow>
      (\<exists>r m' detail. calculate_score now d m ja ca = Inr (r, m', d)
         \<and> match_data m' = Some detail
         \<and> detail ''embedding_similarity'' = Some (JNumber sim)
         \<and> detail ''skill_match_score'' = Some (JNumber (0.4 * calculate_skill_match_score d m))
         \<and> detail ''total_score'' = Some (JNumber r)
         \<and> detail ''last_calculated_at'' = Some (JString now)
         \<and> dom detail = dom (or_empty_dict (match_data m)) \<union>
              {''embedding_similarity'', ''skill_match_score'', ''total_score'',
               ''last_calculated_at''}))
   \<and> (get_candidate d n co = Some c \<and> get_job d n jo = Some j
        \<and> truthy (c_embedding c) \<and> truthy (j_embedding j)
        \<and> calculate_embedding_match (or_empty (c_embedding c)) (or_empty (j_embedding j))
            = Inr sim2 \<longrightarrow>
      (\<exists>r n' detail. calculate_match_score now d n co jo = Inr (r, n', d)
         \<and> cjm_match_data n' = Some detail
         \<and> detail ''skills_match_score'' = Some (JNumber (calculate_skills_match c j))
         \<and> detail ''embedding_match_score'' = Some (JNumber sim2)
         \<and> detail ''total_score'' = Some (JNumber r)
         \<and> detail ''calculation_timestamp'' = Some (JString now)
         \<and> dom detail = {''skills_match_score'', ''embedding_match_score'', ''total_score'',
              ''calculation_timestamp''}))
   \<and> (\<not> truthy (get_job_embedding d m ja) \<or> \<not> truthy (get_candidate_embedding d m ca) \<longrightarrow>
      (\<exists>r m'. calculate_score now d m ja ca = Inr (r, m', d)
         \<and> match_data m' = match_data m))
   \<and> (get_candidate d n co = Some c \<and> get_job d n jo = Some j
        \<and> (\<not> truthy (c_embedding c) \<or> \<not> truthy (j_embedding j)) \<longrightarrow>
      (\<exists>r n'. calculate_match_score now d n co jo = Inr (r, n', d)
         \<and> cjm_match_data n' = cjm_match_data n))"
proof (intro conjI impI)
  assume a: "truthy (get_job_embedding d m ja) \<and> truthy (get_candidate_embedding d m ca)
      \<and> cosine_similarity (get_job_embedding d m ja) (get_candidate_embedding d m ca) = Inr sim"
  then have "calculate_score now d m ja ca
      = Inr (sim * 0.6 + calculate_skill_match_score d m * 0.4,
             m\<lparr>score := sim * 0.6 + calculate_skill_match_score d m * 0.4,
               match_data := Some (or_empty_dict (match_data m) ++
                 [''embedding_similarity'' \<mapsto> JNumber sim,
                  ''skill_match_score'' \<mapsto> JNumber (calculate_skill_match_score d m * 0.4),
                  ''total_score'' \<mapsto>
                     JNumber (sim * 0.6 + calculate_skill_match_score d m * 0.4),
                  ''last_calculated_at'' \<mapsto> JString now])\<rparr>, d)"
    by (simp add: calculate_score_full_record)
  then show "\<exists>r m' detail. calculate_score now d m ja ca = Inr (r, m', d)
         \<and> match_data m' = Some detail
         \<and> detail ''embedding_similarity'' = Some (JNumber sim)
         \<and> detail ''skill_match_score'' = Some (JNumber (0.4 * calculate_skill_match_score d m))
         \<and> detail ''total_score'' = Some (JNumber r)
         \<and> detail ''last_calculated_at'' = Some (JString now)
         \<and> dom detail = dom (or_empty_dict (match_data m)) \<union>
              {''embedding_similarity'', ''skill_match_score'', ''total_score'',
               ''last_calculated_at''}"
    by (auto simp add: map_add_def)
next
  assume a: "get_candidate d n co = Some c \<and> get_job d n jo = Some j
        \<and> truthy (c_embedding c) \<and> truthy (j_embedding j)
        \<and> calculate_embedding_match (or_empty (c_embedding c)) (or_empty (j_embedding j))
            = Inr sim2"
  then show "\<exists>r n' detail. calculate_match_score now d n co jo = Inr (r, n', d)
         \<and> cjm_match_data n' = Some detail
         \<and> detail ''skills_match_score'' = Some (JNumber (calculate_skills_match c j))
         \<and> detail ''embedding_match_score'' = Some (JNumber sim2)
         \<and> detail ''total_score'' = Some (JNumber r)
         \<and> detail ''calculation_timestamp'' = Some (JString now)
         \<and> dom detail = {''skills_match_score'', ''embedding_match_score'', ''total_score'',
              ''calculation_timestamp''}"
    using calculate_match_score_full_record [of d n co c jo j sim2 now]
    by auto
next
  assume "\<not> truthy (get_job_embedding d m ja) \<or> \<not> truthy (get_candidate_embedding d m ca)"
  then show "\<exists>r m'. calculate_score now d m ja ca = Inr (r, m', d)
         \<and> match_data m' = match_data m"
    by (simp add: calculate_score_fallback)
next
  assume "get_candidate d n co = Some c \<and> get_job d n jo = Some j
        \<and> (\<not> truthy (c_embedding c) \<or> \<not> truthy (j_embedding j))"
  then show "\<exists>r n'. calculate_match_score now d n co jo = Inr (r, n', d)
         \<and> cjm_match_data n' = cjm_match_data n"
    using calculate_match_score_fallback [of d n co c jo j now] by auto
qed

theorem score_detail_full_path_only_witness:
  "truthy (get_job_embedding disjoint_db new_job_candidate_match None)
   \<and> truthy (get_candidate_embedding disjoint_db new_job_candidate_match None)
   \<and> cosine_similarity (get_job_embedding disjoint_db new_job_candidate_match None)
        (get_candidate_embedding disjoint_db new_job_candidate_match None) = Inr 1
   \<and> (\<exists>r m' detail.
         calculate_score ''2024-01-01T00:00:00'' disjoint_db new_job_candidate_match None None
           = Inr (r, m', disjoint_db)
         \<and> match_data m' = Some detail
         \<and> detail ''embedding_similarity'' = Some (JNumber 1)
         \<and> detail ''total_score'' = Some (JNumber r)
         \<and> detail ''last_calculated_at'' = Some (JString ''2024-01-01T00:00:00''))
   \<and> get_candidate disjoint_db new_candidate_job_match None = Some disjoint_candidate
   \<and> get_job disjoint_db new_candidate_job_match None = Some disjoint_job
   \<and> truthy (c_embedding disjoint_candidate) \<and> truthy (j_embedding disjoint_job)
   \<and> calculate_embedding_match (or_empty (c_embedding disjoint_candidate))
        (or_empty (j_embedding disjoint_job)) = Inr 1
   \<and> (\<exists>r n' detail.
         calculate_match_score ''2024-01-01T00:00:00'' disjoint_db new_candidate_job_match
           None None = Inr (r, n', disjoint_db)
         \<and> cjm_match_data n' = Some detail
         \<and> detail ''embedding_match_score'' = Some (JNumber 1)
         \<and> detail ''total_score'' = Some (JNumber r)
         \<and> detail ''calculation_timestamp'' = Some (JString ''2024-01-01T00:00:00''))
   \<and> \<not> truthy (get_job_embedding skills_db new_job_candidate_match None)
   \<and> (\<exists>r m'.
         calculate_score ''2024-01-01T00:00:00'' skills_db new_job_candidate_match None None
           = Inr (r, m', skills_db)
         \<and> match_data m' = match_data new_job_candidate_match)
   \<and> get_candidate skills_db new_candidate_job_match None = Some python_sql_candidate
   \<and> get_job skills_db new_candidate_job_match None = Some python_go_job
   \<and> \<not> truthy (c_embedding python_sql_candidate)
   \<and> (\<exists>r n'.
         calculate_match_score ''2024-01-01T00:00:00'' skills_db new_candidate_job_match
           None None = Inr (r, n', skills_db)
         \<and> cjm_match_data n' = cjm_match_data new_candidate_job_match)"
proof -
  note full = score_detail_full_path_only [of disjoint_db new_job_candidate_match None None 1
      "''2024-01-01T00:00:00''" new_candidate_job_match None disjoint_candidate None
      disjoint_job 1]
  note fallback = score_detail_full_path_only [of skills_db new_job_candidate_match None None 1
      "''2024-01-01T00:00:00''" new_candidate_job_match None python_sql_candidate None
      python_go_job 1]
  have h1: "truthy (get_job_embedding disjoint_db new_job_candidate_match None)
      \<and> truthy (get_candidate_embedding disjoint_db new_job_candidate_match None)
      \<and> cosine_similarity (get_job_embedding disjoint_db new_job_candidate_match None)
           (get_candidate_embedding disjoint_db new_job_candidate_match None) = Inr 1"
    by (simp add: disjoint_db_facts unit_similarity)
  have h2: "get_candidate disjoint_db new_candidate_job_match None = Some disjoint_candidate
      \<and> get_job disjoint_db new_candidate_job_match None = Some disjoint_job
      \<and> truthy (c_embedding disjoint_candidate) \<and> truthy (j_embedding disjoint_job)
      \<and> calculate_embedding_match (or_empty (c_embedding disjoint_candidate))
           (or_empty (j_embedding disjoint_job)) = Inr 1"
    by (simp add: disjoint_db_facts unit_similarity)
  have h3: "\<not> truthy (get_job_embedding skills_db new_job_candidate_match None)"
    by (simp add: skills_db_facts)
  have h4: "get_candidate skills_db new_candidate_job_match None = Some python_sql_candidate
      \<and> get_job skills_db new_candidate_job_match None = Some python_go_job
      \<and> \<not> truthy (c_embedding python_sql_candidate)"
    by (simp add: skills_db_facts)
  note f1 = full [THEN conjunct1, THEN mp, OF h1]
  note f2 = full [THEN conjunct2, THEN conjunct1, THEN mp, OF h2]
  note f3 = fallback [THEN conjunct2, THEN conjunct2, THEN conjunct1, THEN mp, OF disjI1, OF h3]
  have h4': "get_candidate skills_db new_candidate_job_match None = Some python_sql_candidate
      \<and> get_job skills_db new_candidate_job_match None = Some python_go_job
      \<and> (\<not> truthy (c_embedding python_sql_candidate) \<or> \<not> truthy (j_embedding python_go_job))"
    using h4 by blast
  note f4 = fallback [THEN conjunct2, THEN conjunct2, THEN conjunct2, THEN mp, OF h4']
  from f1 have a: "\<exists>r m' detail.
         calculate_score ''2024-01-01T00:00:00'' disjoint_db new_job_candidate_match None None
           = Inr (r, m', disjoint_db)
         \<and> match_data m' = Some detail
         \<and> detail ''embedding_similarity'' = Some (JNumber 1)
         \<and> detail ''total_score'' = Some (JNumber r)
         \<and> detail ''last_calculated_at'' = Some (JString ''2024-01-01T00:00:00'')"
    by (elim exE conjE) (intro exI conjI, assumption+)
  from f2 have b: "\<exists>r n' detail.
         calculate_match_score ''2024-01-01T00:00:00'' disjoint_db new_candidate_job_match
           None None = Inr (r, n', disjoint_db)
         \<and> cjm_match_data n' = Some detail
         \<and> detail ''embedding_match_score'' = Some (JNumber 1)
         \<and> detail ''total_score'' = Some (JNumber r)
         \<and> detail ''calculation_timestamp'' = Some (JString ''2024-01-01T00:00:00'')"
    by (elim exE conjE) (intro exI conjI, assumption+)
  from h1 h2 h3 h4 a b f3 f4 show ?thesis
    by (intro conjI) (elim conjE, assumption)+
qed

subsection \<open>C4: score changes and the match history\<close>

text \<open>
  Claim C4 says that no score changes without a history entry. Both score computations
  change the score of a record (here from 0 to 0.6) and add no row to
  \<open>match_history\<close>.
\<close>

theorem score_change_without_history_counterexample:
  "(\<exists>m'. calculate_score ''2024-01-01T00:00:00'' disjoint_db new_job_candidate_match None None
            = Inr (0.6, m', disjoint_db)
          \<and> score new_job_candidate_match = 0 \<and> score m' = 0.6)
   \<and> (\<exists>n'. calculate_match_score ''2024-01-01T00:00:00'' disjoint_db new_candidate_job_match
              None None = Inr (0.6, n', disjoint_db)
          \<and> match_score new_candidate_job_match = 0 \<and> match_score n' = 0.6)
   \<and> match_history_rows disjoint_db = []"
proof -
  have skill: "calculate_skill_match_score disjoint_db new_job_candidate_match = 0"
    "calculate_skills_match disjoint_candidate disjoint_job = 0"
    using disjoint_skills
    by (simp_all add: calculate_skill_match_score_jaccard [OF disjoint_db_facts(3,4)]
        calculate_skills_match_jaccard jaccard_disjoint Int_commute)
  obtain m' where m': "calculate_score ''2024-01-01T00:00:00'' disjoint_db
      new_job_candidate_match None None = Inr (0.6, m', disjoint_db)" "score m' = 0.6"
    using calculate_score_full [of disjoint_db new_job_candidate_match None None 1
        "''2024-01-01T00:00:00''"]
    by (auto simp add: disjoint_db_facts unit_similarity skill)
  obtain n' where n': "calculate_match_score ''2024-01-01T00:00:00'' disjoint_db
      new_candidate_job_match None None = Inr (0.6, n', disjoint_db)" "match_score n' = 0.6"
    using calculate_match_score_full [of disjoint_db new_candidate_job_match None
        disjoint_candidate None disjoint_job 1 "''2024-01-01T00:00:00''"]
    by (auto simp add: disjoint_db_facts unit_similarity skill)
  have z: "score new_job_candidate_match = 0" "match_score new_candidate_job_match = 0"
    "match_history_rows disjoint_db = []"
    by (simp_all add: new_job_candidate_match_def new_candidate_job_match_def disjoint_db_def)
  from m' n' z show ?thesis by blast
qed

text \<open>
  Claim C4, amended. A score computation writes no history: \<open>calculate_score\<close> and
  \<open>calculate_match_score\<close> leave the database, with the rows of \<open>match_history\<close>, as
  it was, and \<open>calculate_score\<close> leaves the status of the record as it was. A row of
  \<open>match_history\<close> is written by another call, if at all.
\<close>

theorem score_computation_writes_no_history:
  "(calculate_score now d m ja ca = Inr (r, m', d') \<longrightarrow>
      d' = d \<and> match_history_rows d' = match_history_rows d \<and> status m' = status m)
   \<and> (calculate_match_score now d n co jo = Inr (r2, n', d2) \<longrightarrow>
      d2 = d \<and> match_history_rows d2 = match_history_rows d)"
proof (intro conjI impI)
  assume a: "calculate_score now d m ja ca = Inr (r, m', d')"
  then show "d' = d"
    by (auto simp add: calculate_score_def Let_def split: if_splits sum.splits)
  then show "match_history_rows d' = match_history_rows d"
    by simp
  from a show "status m' = status m"
    by (auto simp add: calculate_score_def Let_def split: if_splits sum.splits)
next
  assume a: "calculate_match_score now d n co jo = Inr (r2, n', d2)"
  then show "d2 = d"
    by (auto simp add: calculate_match_score_def Let_def
        split: if_splits sum.splits option.splits)
  then show "match_history_rows d2 = match_history_rows d"
    by simp
qed

theorem score_computation_writes_no_history_witness:
  "\<exists>m' n'.
     calculate_score ''2024-01-01T00:00:00'' disjoint_db new_job_candidate_match None None
       = Inr (0.6, m', disjoint_db)
     \<and> calculate_match_score ''2024-01-01T00:00:00'' disjoint_db new_candidate_job_match
         None None = Inr (0.6, n', disjoint_db)
     \<and> score m' = 0.6 \<and> match_score n' = 0.6
     \<and> match_history_rows disjoint_db = match_history_rows disjoint_db
     \<and> status m' = status new_job_candidate_match"
proof -
  have skill: "calculate_skill_match_score disjoint_db new_job_candidate_match = 0"
    "calculate_skills_match disjoint_candidate disjoint_job = 0"
    using disjoint_skills
    by (simp_all add: calculate_skill_match_score_jaccard [OF disjoint_db_facts(3,4)]
        calculate_skills_match_jaccard jaccard_disjoint Int_commute)
  obtain m' where m': "calculate_score ''2024-01-01T00:00:00'' disjoint_db
      new_job_candidate_match None None = Inr (0.6, m', disjoint_db)" "score m' = 0.6"
    using calculate_score_full [of disjoint_db new_job_candidate_match None None 1
        "''2024-01-01T00:00:00''"]
    by (auto simp add: disjoint_db_facts unit_similarity skill)
  obtain n' where n': "calculate_match_score ''2024-01-01T00:00:00'' disjoint_db
      new_candidate_job_match None None = Inr (0.6, n', disjoint_db)" "match_score n' = 0.6"
    using calculate_match_score_full [of disjoint_db new_candidate_job_match None
        disjoint_candidate None disjoint_job 1 "''2024-01-01T00:00:00''"]
    by (auto simp add: disjoint_db_facts unit_similarity skill)
  from score_computation_writes_no_history [of "''2024-01-01T00:00:00''" disjoint_db
      new_job_candidate_match None None "0.6" m' disjoint_db new_candidate_job_match None None
      "0.6" n' disjoint_db] m' n'
  show ?thesis by auto
qed

subsection \<open>C3: one match record per pair\<close>

text \<open>
  Claim C3, against the record manager modelled from the specification. In every state
  reached from the empty store there is at most one record for a pair of candidate and
  job, and after a score computation for the pair exactly one. A computation for a pair
  that has a record keeps the number of records and updates the score of that record; a
  computation for a new pair adds one record.
\<close>

theorem one_record_per_pair:
  "(reachable s \<longrightarrow>
      length (filter (\<lambda>r. pair_of r = (c, j)) (records s)) \<le> 1
      \<and> reachable (compute_and_store s c j v now)
      \<and> length (filter (\<lambda>r. pair_of r = (c, j)) (records (compute_and_store s c j v now))) = 1)
   \<and> (get_record s c j = Some r \<longrightarrow>
      length (records (compute_and_store s c j v now)) = length (records s)
      \<and> get_record (compute_and_store s c j v now) c j
           = Some (r\<lparr>mr_match_score := v, mr_updated_at := now\<rparr>))
   \<and> (get_record s c j = None \<longrightarrow>
      length (records (compute_and_store s c j v now)) = Suc (length (records s)))"
proof (intro conjI impI)
  assume r: "reachable s"
  then have "one_per_pair s" by (rule reachable_one_per_pair)
  then show "length (filter (\<lambda>r. pair_of r = (c, j)) (records s)) \<le> 1"
    unfolding one_per_pair_def by (rule distinct_keys_filter)
  from r show r': "reachable (compute_and_store s c j v now)"
    by (rule reachable.stored)
  then have "one_per_pair (compute_and_store s c j v now)"
    by (rule reachable_one_per_pair)
  then have le: "length (filter (\<lambda>r. pair_of r = (c, j))
      (records (compute_and_store s c j v now))) \<le> 1"
    unfolding one_per_pair_def by (rule distinct_keys_filter)
  have "\<exists>x \<in> set (records (compute_and_store s c j v now)). pair_of x = (c, j)"
  proof (cases "get_record s c j")
    case None
    then show ?thesis
      by (simp add: compute_and_store_def pair_of_def)
  next
    case (Some r0)
    then have "get_record (compute_and_store s c j v now) c j
        = Some (r0\<lparr>mr_match_score := v, mr_updated_at := now\<rparr>)"
      by (rule get_record_after_store)
    then show ?thesis
      by (auto simp add: get_record_def find_Some_iff)
  qed
  then have "filter (\<lambda>r. pair_of r = (c, j)) (records (compute_and_store s c j v now)) \<noteq> []"
    by (auto simp add: filter_empty_conv)
  then have "0 < length (filter (\<lambda>r. pair_of r = (c, j))
      (records (compute_and_store s c j v now)))"
    by simp
  with le show "length (filter (\<lambda>r. pair_of r = (c, j))
      (records (compute_and_store s c j v now))) = 1"
    by arith
next
  assume g: "get_record s c j = Some r"
  then show "length (records (compute_and_store s c j v now)) = length (records s)"
    by (simp add: compute_and_store_def)
  from g show "get_record (compute_and_store s c j v now) c j
           = Some (r\<lparr>mr_match_score := v, mr_updated_at := now\<rparr>)"
    by (rule get_record_after_store)
next
  assume "get_record s c j = None"
  then show "length (records (compute_and_store s c j v now)) = Suc (length (records s))"
    by (simp add: compute_and_store_def)
qed

theorem one_record_per_pair_witness:
  "reachable one_match_store
   \<and> get_record one_match_store 1 1 = Some first_record
   \<and> length (filter (\<lambda>r. pair_of r = (1, 1)) (records one_match_store)) \<le> 1
   \<and> length (filter (\<lambda>r. pair_of r = (1, 1))
        (records (compute_and_store one_match_store 1 1 (3 / 4) ''2024-01-02T00:00:00''))) = 1
   \<and> length (records (compute_and_store one_match_store 1 1 (3 / 4) ''2024-01-02T00:00:00''))
        = length (records one_match_store)
   \<and> get_record (compute_and_store one_match_store 1 1 (3 / 4) ''2024-01-02T00:00:00'') 1 1
        = Some (first_record\<lparr>mr_match_score := 3 / 4,
             mr_updated_at := ''2024-01-02T00:00:00''\<rparr>)
   \<and> get_record one_match_store 2 1 = None
   \<and> length (records (compute_and_store one_match_store 2 1 (3 / 4) ''2024-01-02T00:00:00''))
        = Suc (length (records one_match_store))"
proof -
  have r: "reachable one_match_store"
    unfolding one_match_store_def by (intro reachable.stored reachable.initial)
  have g: "get_record one_match_store 1 1 = Some first_record"
    "get_record one_match_store 2 1 = None"
    by (simp_all add: get_record_def one_match_store_records first_record_fields)
  from one_record_per_pair [of one_match_store 1 1 "3 / 4" "''2024-01-02T00:00:00''"
      first_record]
    one_record_per_pair [of one_match_store 2 1 "3 / 4" "''2024-01-02T00:00:00''"
      first_record]
    r g
  show ?thesis by simp
qed

subsection \<open>C5: the status workflow\<close>

text \<open>
  Claim C5, against the workflow modelled from the specification. The table admits the
  steps new to reviewed, reviewed to contacted, and new, reviewed or contacted to
  rejected, and none out of rejected. For a record that exists, a transition fails with
  \<open>InvalidTransition\<close> exactly when the new status differs from the current one and is
  not a step of the table; the same status again succeeds and changes nothing, so no
  history entry is written; a step of the table sets the status and writes one history
  entry.
\<close>

theorem status_workflow:
  "(allowed a b \<longleftrightarrow>
      (a = New \<and> b = Reviewed) \<or> (a = Reviewed \<and> b = Contacted)
      \<or> ((a = New \<or> a = Reviewed \<or> a = Contacted) \<and> b = Rejected))
   \<and> \<not> allowed Rejected b
   \<and> (find (\<lambda>r. mr_id r = i) (records s) = Some r \<longrightarrow>
        (transition s i new actor note now = Inl InvalidTransition
           \<longleftrightarrow> new \<noteq> mr_status r \<and> \<not> allowed (mr_status r) new)
        \<and> (new = mr_status r \<longrightarrow> transition s i new actor note now = Inr s)
        \<and> (allowed (mr_status r) new \<longrightarrow>
             (\<exists>s'. transition s i new actor note now = Inr s'
                \<and> find (\<lambda>r. mr_id r = i) (records s')
                     = Some (r\<lparr>mr_status := new, mr_updated_at := now\<rparr>)
                \<and> length (history s') = Suc (length (history s)))))"
proof (intro conjI impI)
  show "allowed a b \<longleftrightarrow>
      (a = New \<and> b = Reviewed) \<or> (a = Reviewed \<and> b = Contacted)
      \<or> ((a = New \<or> a = Reviewed \<or> a = Contacted) \<and> b = Rejected)"
    by (rule allowed_iff)
next
  show "\<not> allowed Rejected b"
    by simp
next
  assume f: "find (\<lambda>r. mr_id r = i) (records s) = Some r"
  show "transition s i new actor note now = Inl InvalidTransition
           \<longleftrightarrow> new \<noteq> mr_status r \<and> \<not> allowed (mr_status r) new"
    by (simp add: transition_found [OF f])
next
  assume f: "find (\<lambda>r. mr_id r = i) (records s) = Some r" and "new = mr_status r"
  then show "transition s i new actor note now = Inr s"
    by (simp add: transition_found [OF f])
next
  assume f: "find (\<lambda>r. mr_id r = i) (records s) = Some r" and a: "allowed (mr_status r) new"
  then have "new \<noteq> mr_status r"
    using allowed_irrefl by auto
  with a show "\<exists>s'. transition s i new actor note now = Inr s'
                \<and> find (\<lambda>r. mr_id r = i) (records s')
                     = Some (r\<lparr>mr_status := new, mr_updated_at := now\<rparr>)
                \<and> length (history s') = Suc (length (history s))"
    by (simp add: transition_found [OF f] find_after_transition [OF f])
qed

theorem status_workflow_witness:
  "find (\<lambda>r. mr_id r = 1) (records one_match_store) = Some first_record
   \<and> mr_status first_record = New
   \<and> transition one_match_store 1 Contacted ''recruiter-7'' None ''2024-01-02T00:00:00''
        = Inl InvalidTransition
   \<and> transition one_match_store 1 New ''recruiter-7'' None ''2024-01-02T00:00:00''
        = Inr one_match_store
   \<and> allowed New Reviewed
   \<and> (\<exists>s'. transition one_match_store 1 Reviewed ''recruiter-7'' None ''2024-01-02T00:00:00''
               = Inr s'
            \<and> find (\<lambda>r. mr_id r = 1) (records s')
                 = Some (first_record\<lparr>mr_status := Reviewed,
                      mr_updated_at := ''2024-01-02T00:00:00''\<rparr>)
            \<and> length (history s') = Suc (length (history one_match_store)))"
proof -
  have f: "find (\<lambda>r. mr_id r = 1) (records one_match_store) = Some first_record"
    by (simp add: one_match_store_records first_record_fields)
  note w = status_workflow [of New Reviewed 1 one_match_store first_record _
      "''recruiter-7''" None "''2024-01-02T00:00:00''"]
  from w [of Contacted] w [of New] w [of Reviewed] f show ?thesis
    by (simp add: first_record_fields)
qed

end
